theory Spec2Isabelle
  imports Complex_Main
begin

section \<open>JavaScript values used by the restoration core\<close>

text \<open>
  The class \<open>ImageRestoration\<close> works on JavaScript numbers, strings, option bags and the
  file system. A JavaScript number is an IEEE-754 double: a finite value, one of the two
  infinities, or NaN (which \<open>parseFloat\<close> and \<open>parseInt\<close> of the command line return for
  text that is not a number). Finite values are modelled by their rational value and a
  decimal literal of the source denotes its decimal value; the rounding of products, sums
  and quotients is not fixed here: these operations are parameters of the runtime below.
\<close>

datatype jsnum = NaN | NegInf | Fin rat | PosInf

text \<open>The relational operators \<open><\<close>, \<open>>\<close>, \<open><=\<close>: false as soon as one side is NaN.\<close>

fun js_lt :: "jsnum \<Rightarrow> jsnum \<Rightarrow> bool" where
  "js_lt NaN b = False"
| "js_lt a NaN = False"
| "js_lt a NegInf = False"
| "js_lt NegInf b = True"
| "js_lt PosInf b = False"
| "js_lt (Fin x) PosInf = True"
| "js_lt (Fin x) (Fin y) = (x < y)"

definition js_gt :: "jsnum \<Rightarrow> jsnum \<Rightarrow> bool" where
  "js_gt a b = js_lt b a"

definition js_le :: "jsnum \<Rightarrow> jsnum \<Rightarrow> bool" where
  "js_le a b = (a \<noteq> NaN \<and> b \<noteq> NaN \<and> \<not> js_lt b a)"

text \<open>Strict equality \<open>===\<close> on numbers (NaN equals nothing) and its negation \<open>!==\<close>.\<close>

definition js_seq :: "jsnum \<Rightarrow> jsnum \<Rightarrow> bool" where
  "js_seq a b = (a \<noteq> NaN \<and> b \<noteq> NaN \<and> a = b)"

definition js_sne :: "jsnum \<Rightarrow> jsnum \<Rightarrow> bool" where
  "js_sne a b = (\<not> js_seq a b)"

text \<open>\<open>Math.max\<close>, \<open>Math.min\<close> of two numbers: NaN when an argument is NaN.\<close>

definition Math_max :: "jsnum \<Rightarrow> jsnum \<Rightarrow> jsnum" where
  "Math_max a b = (if a = NaN \<or> b = NaN then NaN else if js_lt a b then b else a)"

definition Math_min :: "jsnum \<Rightarrow> jsnum \<Rightarrow> jsnum" where
  "Math_min a b = (if a = NaN \<or> b = NaN then NaN else if js_lt b a then b else a)"

text \<open>\<open>Math.round\<close>: the nearest integer, a tie going up; NaN and the infinities stay.\<close>

fun Math_round :: "jsnum \<Rightarrow> jsnum" where
  "Math_round (Fin x) = Fin (of_int \<lfloor>x + 1 / 2\<rfloor>)"
| "Math_round a = a"

text \<open>\<open>Math.abs\<close> and unary minus are exact.\<close>

fun Math_abs :: "jsnum \<Rightarrow> jsnum" where
  "Math_abs (Fin x) = Fin \<bar>x\<bar>"
| "Math_abs NegInf = PosInf"
| "Math_abs a = a"

fun js_neg :: "jsnum \<Rightarrow> jsnum" where
  "js_neg (Fin x) = Fin (- x)"
| "js_neg NegInf = PosInf"
| "js_neg PosInf = NegInf"
| "js_neg NaN = NaN"

subsection \<open>Strings\<close>

text \<open>
  Strings are lists of bytes. \<open>toLowerCase\<close> and \<open>toUpperCase\<close> are modelled on the ASCII
  letters; every other byte is left as it is.
\<close>

definition lower_char :: "char \<Rightarrow> char" where
  "lower_char c =
     (case List.find (\<lambda>p. fst p = c) (zip ''ABCDEFGHIJKLMNOPQRSTUVWXYZ'' ''abcdefghijklmnopqrstuvwxyz'') of
        Some p \<Rightarrow> snd p | None \<Rightarrow> c)"

definition upper_char :: "char \<Rightarrow> char" where
  "upper_char c =
     (case List.find (\<lambda>p. fst p = c) (zip ''abcdefghijklmnopqrstuvwxyz'' ''ABCDEFGHIJKLMNOPQRSTUVWXYZ'') of
        Some p \<Rightarrow> snd p | None \<Rightarrow> c)"

definition toLowerCase :: "string \<Rightarrow> string" where
  "toLowerCase s = map lower_char s"

definition toUpperCase :: "string \<Rightarrow> string" where
  "toUpperCase s = map upper_char s"

text \<open>Decimal rendering of a non-negative integer, as a template literal prints it.\<close>

fun show_nat :: "nat \<Rightarrow> string" where
  "show_nat n = (if n < 10 then [''0123456789'' ! n]
                 else show_nat (n div 10) @ [''0123456789'' ! (n mod 10)])"

declare show_nat.simps [simp del]

text \<open>\<open>Array.prototype.join\<close> on a list of strings.\<close>

fun join :: "string \<Rightarrow> string list \<Rightarrow> string" where
  "join sep [] = []"
| "join sep [x] = x"
| "join sep (x # y # ys) = x @ sep @ join sep (y # ys)"

subsection \<open>The intermediate path\<close>

text \<open>
  \<open>outputPath.replace(/\.[^/.]+$/, '_temp$&')\<close>: the pattern is a dot followed by one or
  more characters that are neither a slash nor a dot, up to the end of the string.
  \<open>ext_match s\<close> says that the pattern matches the whole of \<open>s\<close>; \<open>temp_path\<close> looks for
  the leftmost position where it does, as the regular-expression search goes, and puts
  \<open>_temp\<close> in front of the match. Without a match the string is returned unchanged.
\<close>

fun ext_match :: "string \<Rightarrow> bool" where
  "ext_match [] = False"
| "ext_match (c # cs) = (c = CHR ''.'' \<and> cs \<noteq> [] \<and> list_all (\<lambda>d. d \<noteq> CHR ''/'' \<and> d \<noteq> CHR ''.'') cs)"

fun temp_path :: "string \<Rightarrow> string" where
  "temp_path [] = []"
| "temp_path (c # cs) = (if ext_match (c # cs) then ''_temp'' @ c # cs else c # temp_path cs)"

section \<open>Data model\<close>

type_synonym path = string
type_synonym errmsg = string

text \<open>What \<open>sharp(...).metadata()\<close> reports about a decodable file.\<close>

record metadata =
  width :: nat
  height :: nat
  format :: string
  channels :: nat
  density :: "nat option"
  hasAlpha :: bool
  space :: string

text \<open>
  The calls made on a sharp pipeline, with the arguments the source passes.
  \<open>Modulate b s h\<close> is \<open>modulate({brightness: b, saturation: s, hue: h})\<close>, a key left out
  being \<open>None\<close>; \<open>Resize w h k\<close> is \<open>resize({width: w, height: h, kernel: k, fit: 'fill'})\<close>;
  \<open>ResizeInside w h\<close> is \<open>resize(w, h, {fit: 'inside', withoutEnlargement: true})\<close>.
\<close>

datatype op =
    Modulate "jsnum option" "jsnum option" "jsnum option"
  | Gamma jsnum
  | Linear jsnum jsnum
  | Sharpen
  | Median jsnum
  | Blur jsnum
  | Resize jsnum jsnum string
  | ResizeInside jsnum jsnum

text \<open>
  The encoder calls: \<open>jpeg({quality, mozjpeg})\<close> (the flag is off when the key is left
  out), \<open>png({quality, compressionLevel})\<close>, \<open>webp({quality, effort})\<close>,
  \<open>avif({quality, effort})\<close>.
\<close>

datatype encoder =
    Jpeg jsnum bool
  | Png jsnum "nat option"
  | Webp jsnum "nat option"
  | Avif jsnum nat

text \<open>The calls made on a Jimp image by \<open>adjustColorBalance\<close>.\<close>

datatype jimp_op =
    JColor "(string \<times> jsnum) list"
  | JBrightness jsnum
  | JContrast jsnum
  | JQuality jsnum

text \<open>
  A file has a size, the metadata sharp reads from it (\<open>None\<close> when sharp cannot decode
  it) and the record of the library runs that produced it: each run that writes a file
  appends the calls it made, so the content of a written file is known symbolically.
\<close>

datatype stage = SharpStage "op list" encoder | JimpStage "jimp_op list"

record image_file =
  fsize :: nat
  meta :: "metadata option"
  history :: "stage list"

type_synonym fs = "path \<Rightarrow> image_file option"

text \<open>
  How a write of a library ends: the file is written; the write is rejected and nothing is
  written; or the write fails after the output file was created, leaving the given file.
\<close>

datatype write_outcome = Written | Rejected errmsg | Aborted errmsg image_file

text \<open>
  Everything the class takes from outside the repository is a field of the runtime:
  double arithmetic with its rounding, number formatting, \<open>path.extname\<close>, the parameter
  checks and the write behaviour of sharp and Jimp, and the conditions under which the
  operating system refuses to remove a file. The theorems hold for every runtime.
\<close>

record runtime =
  fmul :: "jsnum \<Rightarrow> jsnum \<Rightarrow> jsnum"
  fadd :: "jsnum \<Rightarrow> jsnum \<Rightarrow> jsnum"
  fdiv :: "jsnum \<Rightarrow> jsnum \<Rightarrow> jsnum"
  toFixed :: "nat \<Rightarrow> jsnum \<Rightarrow> string"
  num_to_string :: "rat \<Rightarrow> string"
  extname :: "path \<Rightarrow> string"
  missing_error :: "path \<Rightarrow> errmsg"
  decode_error :: "path \<Rightarrow> image_file \<Rightarrow> errmsg"
  op_error :: "op \<Rightarrow> errmsg option"
  encoder_error :: "encoder \<Rightarrow> errmsg option"
  toFile_outcome :: "path \<Rightarrow> image_file \<Rightarrow> op list \<Rightarrow> encoder \<Rightarrow> path \<Rightarrow> write_outcome"
  rendered_meta :: "image_file \<Rightarrow> op list \<Rightarrow> encoder \<Rightarrow> metadata"
  rendered_size :: "image_file \<Rightarrow> op list \<Rightarrow> encoder \<Rightarrow> nat"
  stat_error :: "path \<Rightarrow> errmsg"
  unlink_error :: "path \<Rightarrow> errmsg option"
  jimp_missing :: "path \<Rightarrow> errmsg"
  jimp_read_error :: "path \<Rightarrow> image_file \<Rightarrow> errmsg option"
  jimp_op_error :: "jimp_op \<Rightarrow> errmsg option"
  jimp_outcome :: "path \<Rightarrow> image_file \<Rightarrow> jimp_op list \<Rightarrow> path \<Rightarrow> write_outcome"
  jimp_meta :: "image_file \<Rightarrow> jimp_op list \<Rightarrow> path \<Rightarrow> metadata option"
  jimp_size :: "image_file \<Rightarrow> jimp_op list \<Rightarrow> path \<Rightarrow> nat"

text \<open>
  The option bag of \<open>enhanceImage\<close>, \<open>upscaleImage\<close> and \<open>restoreImage\<close>: a key that is
  absent is \<open>None\<close>. \<open>dflt\<close> is the default of a destructuring pattern.
\<close>

record options =
  brightness :: "jsnum option"
  contrast :: "jsnum option"
  saturation :: "jsnum option"
  sharpen :: "bool option"
  denoise :: "bool option"
  gamma :: "jsnum option"
  scale :: "jsnum option"
  algorithm :: "string option"
  maxWidth :: "jsnum option"
  maxHeight :: "jsnum option"
  enhanceAfterUpscale :: "bool option"
  autoColorCorrection :: "bool option"
  preserveDetails :: "bool option"

record color_options =
  temperature :: "jsnum option"
  tint :: "jsnum option"
  highlights :: "jsnum option"
  shadows :: "jsnum option"
  vibrance :: "jsnum option"

definition no_options :: options where
  "no_options = \<lparr>brightness = None, contrast = None, saturation = None, sharpen = None,
     denoise = None, gamma = None, scale = None, algorithm = None, maxWidth = None,
     maxHeight = None, enhanceAfterUpscale = None, autoColorCorrection = None,
     preserveDetails = None\<rparr>"

definition dflt :: "'a \<Rightarrow> 'a option \<Rightarrow> 'a" where
  "dflt d x = (case x of None \<Rightarrow> d | Some v \<Rightarrow> v)"

text \<open>\<open>{ ...defaultOptions, ...options }\<close>: a key of \<open>options\<close> wins over the default.\<close>

definition pick :: "'a option \<Rightarrow> 'a option \<Rightarrow> 'a option" where
  "pick d x = (case x of None \<Rightarrow> d | Some v \<Rightarrow> Some v)"

definition merge_options :: "options \<Rightarrow> options \<Rightarrow> options" where
  "merge_options d x =
     \<lparr>brightness = pick (brightness d) (brightness x),
      contrast = pick (contrast d) (contrast x),
      saturation = pick (saturation d) (saturation x),
      sharpen = pick (sharpen d) (sharpen x),
      denoise = pick (denoise d) (denoise x),
      gamma = pick (gamma d) (gamma x),
      scale = pick (scale d) (scale x),
      algorithm = pick (algorithm d) (algorithm x),
      maxWidth = pick (maxWidth d) (maxWidth x),
      maxHeight = pick (maxHeight d) (maxHeight x),
      enhanceAfterUpscale = pick (enhanceAfterUpscale d) (enhanceAfterUpscale x),
      autoColorCorrection = pick (autoColorCorrection d) (autoColorCorrection x),
      preserveDetails = pick (preserveDetails d) (preserveDetails x)\<rparr>"

text \<open>
  The object an operation returns: every key the source ever sets, \<open>None\<close> when the
  object does not have it. \<open>info\<close> is the nested object of \<open>getImageInfo\<close>: the metadata
  fields (\<open>colorspace\<close> is the field \<open>space\<close>) with the two size fields.
\<close>

record image_info = metadata +
  fileSize :: nat
  fileSizeMB :: string

record result =
  success :: "bool option"
  valid :: "bool option"
  error :: "errmsg option"
  message :: "string option"
  originalSize :: "string option"
  newSize :: "string option"
  scaleFactor :: "string option"
  thumbnailSize :: "string option"
  info :: "image_info option"

definition empty_result :: result where
  "empty_result = \<lparr>success = None, valid = None, error = None, message = None,
     originalSize = None, newSize = None, scaleFactor = None, thumbnailSize = None,
     info = None\<rparr>"

text \<open>\<open>{ success: false, error: e }\<close> and \<open>{ success: true, message: m }\<close>.\<close>

definition failure :: "errmsg \<Rightarrow> result" where
  "failure e = empty_result\<lparr>success := Some False, error := Some e\<rparr>"

definition succeeded :: "string \<Rightarrow> result" where
  "succeeded m = empty_result\<lparr>success := Some True, message := Some m\<rparr>"

text \<open>Truthiness of a key that holds a boolean or is absent.\<close>

definition truthy :: "bool option \<Rightarrow> bool" where
  "truthy b = (b = Some True)"

text \<open>
  A number inside a template literal: integers below \<open>10^21\<close> print in decimal, the
  special values by name, everything else as the runtime formats it.
\<close>

definition js_show :: "runtime \<Rightarrow> jsnum \<Rightarrow> string" where
  "js_show rt a =
     (case a of
        NaN \<Rightarrow> ''NaN''
      | PosInf \<Rightarrow> ''Infinity''
      | NegInf \<Rightarrow> ''-Infinity''
      | Fin x \<Rightarrow>
          if x = of_int \<lfloor>x\<rfloor> \<and> \<bar>x\<bar> < 10 ^ 21
          then (if x < 0 then ''-'' else []) @ show_nat (nat \<bar>\<lfloor>x\<rfloor>\<bar>)
          else num_to_string rt x)"

section \<open>The libraries as the class uses them\<close>

text \<open>\<open>fs.statSync(p).size\<close> and \<open>fs.unlinkSync(p)\<close>: both throw when the path is absent.\<close>

definition statSync :: "runtime \<Rightarrow> fs \<Rightarrow> path \<Rightarrow> errmsg + nat" where
  "statSync rt fs p = (case fs p of None \<Rightarrow> Inl (stat_error rt p) | Some f \<Rightarrow> Inr (fsize f))"

definition unlinkSync :: "runtime \<Rightarrow> fs \<Rightarrow> path \<Rightarrow> errmsg + fs" where
  "unlinkSync rt fs p =
     (case fs p of
        None \<Rightarrow> Inl (stat_error rt p)
      | Some f \<Rightarrow> (case unlink_error rt p of Some e \<Rightarrow> Inl e | None \<Rightarrow> Inr (fs(p := None))))"

text \<open>\<open>await sharp(p).metadata()\<close>: rejects when the file is absent or cannot be decoded.\<close>

definition sharp_metadata :: "runtime \<Rightarrow> fs \<Rightarrow> path \<Rightarrow> errmsg + metadata" where
  "sharp_metadata rt fs p =
     (case fs p of
        None \<Rightarrow> Inl (missing_error rt p)
      | Some f \<Rightarrow> (case meta f of None \<Rightarrow> Inl (decode_error rt p f) | Some m \<Rightarrow> Inr m))"

text \<open>
  The pipeline calls are made one after the other and each checks its arguments when it is
  called: the first call that throws ends the \<open>try\<close> block.
\<close>

fun first_error :: "('a \<Rightarrow> errmsg option) \<Rightarrow> 'a list \<Rightarrow> errmsg option" where
  "first_error chk [] = None"
| "first_error chk (x # xs) = (case chk x of Some e \<Rightarrow> Some e | None \<Rightarrow> first_error chk xs)"

text \<open>The format sharp reports for a file written by an encoder (AVIF is reported as heif).\<close>

fun enc_format :: "encoder \<Rightarrow> string" where
  "enc_format (Jpeg q m) = ''jpeg''"
| "enc_format (Png q c) = ''png''"
| "enc_format (Webp q e) = ''webp''"
| "enc_format (Avif q e) = ''heif''"

definition rendered :: "runtime \<Rightarrow> image_file \<Rightarrow> op list \<Rightarrow> encoder \<Rightarrow> image_file" where
  "rendered rt src ops enc =
     \<lparr>fsize = rendered_size rt src ops enc,
      meta = Some ((rendered_meta rt src ops enc)\<lparr>format := enc_format enc\<rparr>),
      history = history src @ [SharpStage ops enc]\<rparr>"

text \<open>\<open>await pipeline.toFile(out)\<close> on a pipeline opened on \<open>inp\<close>.\<close>

definition sharp_toFile ::
  "runtime \<Rightarrow> fs \<Rightarrow> path \<Rightarrow> op list \<Rightarrow> encoder \<Rightarrow> path \<Rightarrow> (errmsg + unit) \<times> fs" where
  "sharp_toFile rt fs inp ops enc out =
     (case fs inp of
        None \<Rightarrow> (Inl (missing_error rt inp), fs)
      | Some src \<Rightarrow>
          (case meta src of
             None \<Rightarrow> (Inl (decode_error rt inp src), fs)
           | Some m \<Rightarrow>
               (case toFile_outcome rt inp src ops enc out of
                  Written \<Rightarrow> (Inr (), fs(out \<mapsto> rendered rt src ops enc))
                | Rejected e \<Rightarrow> (Inl e, fs)
                | Aborted e f \<Rightarrow> (Inl e, fs(out \<mapsto> f)))))"

text \<open>\<open>await Jimp.read(inp)\<close> followed by the calls and \<open>writeAsync(out)\<close>.\<close>

definition jimp_rendered :: "runtime \<Rightarrow> image_file \<Rightarrow> jimp_op list \<Rightarrow> path \<Rightarrow> image_file" where
  "jimp_rendered rt src ops out =
     \<lparr>fsize = jimp_size rt src ops out,
      meta = jimp_meta rt src ops out,
      history = history src @ [JimpStage ops]\<rparr>"

definition jimp_read :: "runtime \<Rightarrow> fs \<Rightarrow> path \<Rightarrow> errmsg + image_file" where
  "jimp_read rt fs p =
     (case fs p of
        None \<Rightarrow> Inl (jimp_missing rt p)
      | Some f \<Rightarrow> (case jimp_read_error rt p f of Some e \<Rightarrow> Inl e | None \<Rightarrow> Inr f))"

definition jimp_writeAsync ::
  "runtime \<Rightarrow> fs \<Rightarrow> path \<Rightarrow> image_file \<Rightarrow> jimp_op list \<Rightarrow> path \<Rightarrow> (errmsg + unit) \<times> fs" where
  "jimp_writeAsync rt fs inp src ops out =
     (case jimp_outcome rt inp src ops out of
        Written \<Rightarrow> (Inr (), fs(out \<mapsto> jimp_rendered rt src ops out))
      | Rejected e \<Rightarrow> (Inl e, fs)
      | Aborted e f \<Rightarrow> (Inl e, fs(out \<mapsto> f)))"

section \<open>The class \<open>ImageRestoration\<close>\<close>

text \<open>
  Every method takes the runtime and the file system, and returns the object it resolves
  to together with the file system it leaves. A \<open>try\<close>/\<open>catch\<close> that returns
  \<open>{ success: false, error: error.message }\<close> is the \<open>failure\<close> branch of each \<open>case\<close>.
\<close>

definition supportedFormats :: "string list" where
  "supportedFormats = [''.jpg'', ''.jpeg'', ''.png'', ''.webp'', ''.tiff'', ''.bmp'', ''.avif'']"

definition maxFileSize :: nat where
  "maxFileSize = 100 * 1024 * 1024"

definition supportedSharpFormats :: "string list" where
  "supportedSharpFormats = [''jpeg'', ''png'', ''webp'', ''tiff'', ''gif'', ''avif'', ''heif'']"

subsection \<open>\<open>validateInputFile\<close>\<close>

text \<open>
  This method has no \<open>try\<close> around \<open>statSync\<close>: an exception there would leave the method,
  which is the \<open>Inl\<close> of the result.
\<close>

definition invalid :: "errmsg \<Rightarrow> result" where
  "invalid e = empty_result\<lparr>valid := Some False, error := Some e\<rparr>"

definition valid_result :: result where
  "valid_result = empty_result\<lparr>valid := Some True\<rparr>"

definition validateInputFile :: "runtime \<Rightarrow> fs \<Rightarrow> path \<Rightarrow> errmsg + result" where
  "validateInputFile rt fs filePath =
     (if fs filePath = None then Inr (invalid ''File does not exist'')
      else
        (case statSync rt fs filePath of
           Inl e \<Rightarrow> Inl e
         | Inr sz \<Rightarrow>
             if sz > maxFileSize
             then Inr (invalid (''File too large. Maximum size: ''
                         @ show_nat (maxFileSize div (1024 * 1024)) @ ''MB''))
             else
               (case sharp_metadata rt fs filePath of
                  Inr md \<Rightarrow>
                    if format md \<notin> set supportedSharpFormats
                    then Inr (invalid (''Unsupported format: '' @ format md
                                @ ''. Supported formats: '' @ join '', '' supportedSharpFormats))
                    else Inr valid_result
                | Inl e \<Rightarrow>
                    (let ext = toLowerCase (extname rt filePath)
                     in if ext \<notin> set supportedFormats
                        then Inr (invalid ''Unsupported format. Unable to process file.'')
                        else Inr valid_result))))"

subsection \<open>\<open>getImageInfo\<close>\<close>

definition getImageInfo :: "runtime \<Rightarrow> fs \<Rightarrow> path \<Rightarrow> result \<times> fs" where
  "getImageInfo rt fs inputPath =
     (case sharp_metadata rt fs inputPath of
        Inl e \<Rightarrow> (failure e, fs)
      | Inr md \<Rightarrow>
          (case statSync rt fs inputPath of
             Inl e \<Rightarrow> (failure e, fs)
           | Inr sz \<Rightarrow>
               (empty_result\<lparr>success := Some True,
                  info := Some \<lparr>width = width md, height = height md, format = format md,
                    channels = channels md, density = density md, hasAlpha = hasAlpha md,
                    space = space md, fileSize = sz,
                    fileSizeMB = toFixed rt 2 (fdiv rt (Fin (of_nat sz)) (Fin (1024 * 1024)))\<rparr>\<rparr>,
                fs)))"

subsection \<open>\<open>enhanceImage\<close>\<close>

definition validGamma :: "jsnum \<Rightarrow> jsnum" where
  "validGamma g = Math_max (Fin 1.0) (Math_min (Fin 3.0) g)"

definition enhance_ops :: "runtime \<Rightarrow> options \<Rightarrow> op list" where
  "enhance_ops rt opts =
     (let b = dflt (Fin 1.0) (brightness opts);
          c = dflt (Fin 1.0) (contrast opts);
          s = dflt (Fin 1.0) (saturation opts);
          g = dflt (Fin 1.0) (gamma opts)
      in (if js_sne b (Fin 1.0) \<or> js_sne c (Fin 1.0) \<or> js_sne s (Fin 1.0)
          then [Modulate (Some b) (Some s) (Some (Fin 0))] else [])
       @ (if js_sne (validGamma g) (Fin 1.0) then [Gamma (validGamma g)] else [])
       @ (if js_sne c (Fin 1.0)
          then [Linear c (fadd rt (js_neg (fmul rt (Fin 128) c)) (Fin 128))] else [])
       @ (if dflt False (sharpen opts) then [Sharpen] else [])
       @ (if dflt False (denoise opts) then [Median (Fin 3)] else []))"

definition enhance_encoder :: "string \<Rightarrow> encoder" where
  "enhance_encoder fmt =
     (if fmt = ''png'' then Png (Fin 95) (Some 6)
      else if fmt = ''webp'' then Webp (Fin 95) None
      else Jpeg (Fin 95) True)"

definition enhanceImage :: "runtime \<Rightarrow> fs \<Rightarrow> path \<Rightarrow> path \<Rightarrow> options \<Rightarrow> result \<times> fs" where
  "enhanceImage rt fs inputPath outputPath opts =
     (case first_error (op_error rt) (enhance_ops rt opts) of
        Some e \<Rightarrow> (failure e, fs)
      | None \<Rightarrow>
          (case sharp_metadata rt fs inputPath of
             Inl e \<Rightarrow> (failure e, fs)
           | Inr md \<Rightarrow>
               (case encoder_error rt (enhance_encoder (format md)) of
                  Some e \<Rightarrow> (failure e, fs)
                | None \<Rightarrow>
                    (case sharp_toFile rt fs inputPath (enhance_ops rt opts)
                            (enhance_encoder (format md)) outputPath of
                       (Inl e, fs') \<Rightarrow> (failure e, fs')
                     | (Inr u, fs') \<Rightarrow>
                         (succeeded (''Enhanced image saved to '' @ outputPath), fs')))))"

subsection \<open>\<open>upscaleImage\<close>\<close>

definition validScale :: "jsnum \<Rightarrow> jsnum" where
  "validScale s = Math_max (Fin 1.1) (Math_min (Fin 8) s)"

definition newDim :: "runtime \<Rightarrow> nat \<Rightarrow> jsnum \<Rightarrow> jsnum \<Rightarrow> jsnum" where
  "newDim rt d vs cap = Math_min (Math_round (fmul rt (Fin (of_nat d)) vs)) cap"

definition upscale_ops :: "runtime \<Rightarrow> metadata \<Rightarrow> options \<Rightarrow> op list" where
  "upscale_ops rt md opts =
     (let vs = validScale (dflt (Fin 2) (scale opts));
          newWidth = newDim rt (width md) vs (dflt (Fin 8000) (maxWidth opts));
          newHeight = newDim rt (height md) vs (dflt (Fin 8000) (maxHeight opts))
      in Resize newWidth newHeight (dflt ''lanczos3'' (algorithm opts))
         # (if dflt True (enhanceAfterUpscale opts)
            then [Sharpen, Modulate (Some (Fin 1.02)) (Some (Fin 1.05)) None] else []))"

definition upscale_encoder :: "string \<Rightarrow> encoder" where
  "upscale_encoder fmt =
     (if fmt = ''png'' then Png (Fin 95) (Some 6)
      else if fmt = ''webp'' then Webp (Fin 95) (Some 6)
      else Jpeg (Fin 95) True)"

definition upscale_result :: "runtime \<Rightarrow> metadata \<Rightarrow> options \<Rightarrow> result" where
  "upscale_result rt md opts =
     (let vs = validScale (dflt (Fin 2) (scale opts));
          newWidth = newDim rt (width md) vs (dflt (Fin 8000) (maxWidth opts));
          newHeight = newDim rt (height md) vs (dflt (Fin 8000) (maxHeight opts));
          old = show_nat (width md) @ ''x'' @ show_nat (height md);
          new = js_show rt newWidth @ ''x'' @ js_show rt newHeight
      in empty_result\<lparr>success := Some True,
           message := Some (''Upscaled image from '' @ old @ '' to '' @ new),
           originalSize := Some old,
           newSize := Some new,
           scaleFactor := Some (toFixed rt 1 vs @ ''x'')\<rparr>)"

definition upscaleImage :: "runtime \<Rightarrow> fs \<Rightarrow> path \<Rightarrow> path \<Rightarrow> options \<Rightarrow> result \<times> fs" where
  "upscaleImage rt fs inputPath outputPath opts =
     (case sharp_metadata rt fs inputPath of
        Inl e \<Rightarrow> (failure e, fs)
      | Inr md \<Rightarrow>
          (case first_error (op_error rt) (upscale_ops rt md opts) of
             Some e \<Rightarrow> (failure e, fs)
           | None \<Rightarrow>
               (case encoder_error rt (upscale_encoder (format md)) of
                  Some e \<Rightarrow> (failure e, fs)
                | None \<Rightarrow>
                    (case sharp_toFile rt fs inputPath (upscale_ops rt md opts)
                            (upscale_encoder (format md)) outputPath of
                       (Inl e, fs') \<Rightarrow> (failure e, fs')
                     | (Inr u, fs') \<Rightarrow> (upscale_result rt md opts, fs')))))"

subsection \<open>\<open>restoreImage\<close>\<close>

definition defaultOptions :: options where
  "defaultOptions = \<lparr>brightness = Some (Fin 1.1), contrast = Some (Fin 1.2),
     saturation = Some (Fin 1.1), sharpen = Some True, denoise = Some True,
     gamma = Some (Fin 1.1), scale = Some (Fin 1.5), algorithm = None, maxWidth = None,
     maxHeight = None, enhanceAfterUpscale = None, autoColorCorrection = Some True,
     preserveDetails = Some True\<rparr>"

text \<open>The literal \<open>{ scale: mergedOptions.scale, enhanceAfterUpscale: false }\<close>.\<close>

definition stage1_options :: "options \<Rightarrow> options" where
  "stage1_options mergedOptions =
     no_options\<lparr>scale := scale mergedOptions, enhanceAfterUpscale := Some False\<rparr>"

text \<open>\<open>mergedOptions.scale > 1\<close>; an absent key compares as false.\<close>

definition scale_exceeds_one :: "options \<Rightarrow> bool" where
  "scale_exceeds_one mergedOptions =
     (case scale mergedOptions of None \<Rightarrow> False | Some s \<Rightarrow> js_gt s (Fin 1))"

definition restoreImage :: "runtime \<Rightarrow> fs \<Rightarrow> path \<Rightarrow> path \<Rightarrow> options \<Rightarrow> result \<times> fs" where
  "restoreImage rt fs inputPath outputPath opts =
     (let mergedOptions = merge_options defaultOptions opts
      in case validateInputFile rt fs inputPath of
           Inl e \<Rightarrow> (failure e, fs)
         | Inr validation \<Rightarrow>
             if \<not> truthy (valid validation)
             then (empty_result\<lparr>success := Some False, error := error validation\<rparr>, fs)
             else
               (let tempPath = temp_path outputPath
                in if scale_exceeds_one mergedOptions
                   then
                     (case upscaleImage rt fs inputPath tempPath (stage1_options mergedOptions) of
                        (upscaleResult, fs1) \<Rightarrow>
                          if \<not> truthy (success upscaleResult) then (upscaleResult, fs1)
                          else
                            (case enhanceImage rt fs1 tempPath outputPath mergedOptions of
                               (res, fs2) \<Rightarrow>
                                 (let fs3 = (case unlinkSync rt fs2 tempPath of
                                               Inl cleanupError \<Rightarrow> fs2
                                             | Inr fs' \<Rightarrow> fs')
                                  in if truthy (success res)
                                     then (res\<lparr>message := Some (''Restored and upscaled image (''
                                                  @ dflt ''undefined'' (scaleFactor upscaleResult)
                                                  @ '') saved to '' @ outputPath),
                                               originalSize := originalSize upscaleResult,
                                               newSize := newSize upscaleResult\<rparr>, fs3)
                                     else (res, fs3))))
                   else enhanceImage rt fs inputPath outputPath mergedOptions))"

subsection \<open>\<open>removeNoise\<close>\<close>

definition validStrength :: "jsnum \<Rightarrow> jsnum" where
  "validStrength s = Math_max (Fin 1) (Math_min (Fin 10) s)"

definition noise_ops :: "jsnum \<Rightarrow> op list" where
  "noise_ops vs =
     (if js_le vs (Fin 3) then [Median vs]
      else if js_le vs (Fin 6) then [Median (Fin 3), Blur (Fin 0.5), Sharpen]
      else [Median (Fin 3), Blur (Fin 0.8), Sharpen, Modulate (Some (Fin 1.02)) None None])"

definition noise_encoder :: "string \<Rightarrow> encoder" where
  "noise_encoder fmt =
     (if fmt = ''png'' then Png (Fin 95) None
      else if fmt = ''webp'' then Webp (Fin 95) None
      else Jpeg (Fin 95) True)"

definition removeNoise :: "runtime \<Rightarrow> fs \<Rightarrow> path \<Rightarrow> path \<Rightarrow> jsnum option \<Rightarrow> result \<times> fs" where
  "removeNoise rt fs inputPath outputPath strength =
     (case sharp_metadata rt fs inputPath of
        Inl e \<Rightarrow> (failure e, fs)
      | Inr md \<Rightarrow>
          (let vs = validStrength (dflt (Fin 3) strength)
           in case first_error (op_error rt) (noise_ops vs) of
                Some e \<Rightarrow> (failure e, fs)
              | None \<Rightarrow>
                  (case encoder_error rt (noise_encoder (format md)) of
                     Some e \<Rightarrow> (failure e, fs)
                   | None \<Rightarrow>
                       (case sharp_toFile rt fs inputPath (noise_ops vs)
                               (noise_encoder (format md)) outputPath of
                          (Inl e, fs') \<Rightarrow> (failure e, fs')
                        | (Inr u, fs') \<Rightarrow>
                            (succeeded (''Noise removed (strength: '' @ js_show rt vs
                               @ '') and saved to '' @ outputPath), fs')))))"

subsection \<open>\<open>adjustColorBalance\<close>\<close>

definition color_ops :: "runtime \<Rightarrow> color_options \<Rightarrow> jimp_op list" where
  "color_ops rt opts =
     (let t = dflt (Fin 0) (temperature opts);
          v = dflt (Fin 0) (vibrance opts);
          hl = dflt (Fin 0) (highlights opts);
          sh = dflt (Fin 0) (shadows opts)
      in (if js_sne t (Fin 0)
          then [JColor [(''red'', if js_gt t (Fin 0) then fmul rt t (Fin 10) else Fin 0),
                        (''blue'', if js_lt t (Fin 0) then fmul rt (Math_abs t) (Fin 10) else Fin 0)]]
          else [])
       @ (if js_sne v (Fin 0) then [JColor [(''saturate'', v)]] else [])
       @ (if js_sne hl (Fin 0) \<or> js_sne sh (Fin 0)
          then [JBrightness (fdiv rt sh (Fin 100)), JContrast (fdiv rt hl (Fin 100))] else [])
       @ [JQuality (Fin 95)])"

definition adjustColorBalance ::
  "runtime \<Rightarrow> fs \<Rightarrow> path \<Rightarrow> path \<Rightarrow> color_options \<Rightarrow> result \<times> fs" where
  "adjustColorBalance rt fs inputPath outputPath opts =
     (case jimp_read rt fs inputPath of
        Inl e \<Rightarrow> (failure e, fs)
      | Inr img \<Rightarrow>
          (case first_error (jimp_op_error rt) (color_ops rt opts) of
             Some e \<Rightarrow> (failure e, fs)
           | None \<Rightarrow>
               (case jimp_writeAsync rt fs inputPath img (color_ops rt opts) outputPath of
                  (Inl e, fs') \<Rightarrow> (failure e, fs')
                | (Inr u, fs') \<Rightarrow>
                    (succeeded (''Color balance adjusted and saved to '' @ outputPath), fs'))))"

subsection \<open>\<open>createThumbnail\<close>\<close>

definition createThumbnail :: "runtime \<Rightarrow> fs \<Rightarrow> path \<Rightarrow> path \<Rightarrow> jsnum option \<Rightarrow> result \<times> fs" where
  "createThumbnail rt fs inputPath outputPath size_opt =
     (let sz = dflt (Fin 300) size_opt
      in case sharp_metadata rt fs inputPath of
           Inl e \<Rightarrow> (failure e, fs)
         | Inr md \<Rightarrow>
             (case first_error (op_error rt) [ResizeInside sz sz] of
                Some e \<Rightarrow> (failure e, fs)
              | None \<Rightarrow>
                  (case encoder_error rt (Jpeg (Fin 85) False) of
                     Some e \<Rightarrow> (failure e, fs)
                   | None \<Rightarrow>
                       (case sharp_toFile rt fs inputPath [ResizeInside sz sz]
                               (Jpeg (Fin 85) False) outputPath of
                          (Inl e, fs') \<Rightarrow> (failure e, fs')
                        | (Inr u, fs') \<Rightarrow>
                            (empty_result\<lparr>success := Some True,
                               message := Some (''Thumbnail created at '' @ outputPath),
                               originalSize := Some (show_nat (width md) @ ''x''
                                                     @ show_nat (height md)),
                               thumbnailSize := Some (js_show rt sz @ ''x'' @ js_show rt sz
                                                      @ '' (max)'')\<rparr>, fs')))))"

subsection \<open>\<open>convertFormat\<close>\<close>

text \<open>The \<open>switch\<close> on \<open>targetFormat.toLowerCase()\<close>; \<open>None\<close> is its \<open>default\<close> branch.\<close>

definition target_encoder :: "string \<Rightarrow> jsnum \<Rightarrow> encoder option" where
  "target_encoder targetFormat quality =
     (let t = toLowerCase targetFormat
      in if t = ''jpeg'' \<or> t = ''jpg'' then Some (Jpeg quality True)
         else if t = ''png'' then Some (Png quality (Some 6))
         else if t = ''webp'' then Some (Webp quality (Some 6))
         else if t = ''avif'' then Some (Avif quality 4)
         else None)"

definition convertFormat ::
  "runtime \<Rightarrow> fs \<Rightarrow> path \<Rightarrow> path \<Rightarrow> string \<Rightarrow> jsnum option \<Rightarrow> result \<times> fs" where
  "convertFormat rt fs inputPath outputPath targetFormat quality_opt =
     (case target_encoder targetFormat (dflt (Fin 95) quality_opt) of
        None \<Rightarrow> (failure (''Unsupported target format: '' @ targetFormat), fs)
      | Some enc \<Rightarrow>
          (case encoder_error rt enc of
             Some e \<Rightarrow> (failure e, fs)
           | None \<Rightarrow>
               (case sharp_toFile rt fs inputPath [] enc outputPath of
                  (Inl e, fs') \<Rightarrow> (failure e, fs')
                | (Inr u, fs') \<Rightarrow>
                    (succeeded (''Converted to '' @ toUpperCase targetFormat
                       @ '' and saved to '' @ outputPath), fs'))))"

subsection \<open>The option-bag argument as a caller passes it\<close>

text \<open>
  \<open>enhanceImage\<close>, \<open>upscaleImage\<close> and \<open>adjustColorBalance\<close> declare \<open>options = {}\<close> and
  destructure \<open>options\<close> in front of their \<open>try\<close> block; \<open>restoreImage\<close> declares the same
  default and spreads \<open>options\<close> into the merged bag. The argument a caller passes is
  left out (\<open>undefined\<close>), \<open>null\<close>, or an object. Destructuring \<open>null\<close> throws a
  \<open>TypeError\<close> that no \<open>catch\<close> of the method sees: the call rejects, which is the \<open>Inl\<close> of
  the result. Spreading \<open>null\<close> adds no key and does not throw. The definitions above are
  the methods on the bag once it is destructured.
\<close>

datatype 'a js_arg = Undefined | Null | Obj 'a

definition no_color_options :: color_options where
  "no_color_options = \<lparr>temperature = None, tint = None, highlights = None, shadows = None,
     vibrance = None\<rparr>"

definition destructure :: "string \<Rightarrow> 'a \<Rightarrow> 'a js_arg \<Rightarrow> errmsg + 'a" where
  "destructure first_key no_bag arg =
     (case arg of
        Undefined \<Rightarrow> Inr no_bag
      | Null \<Rightarrow> Inl (''Cannot destructure property '' @ first_key @ '' of options as it is null.'')
      | Obj bag \<Rightarrow> Inr bag)"

definition enhanceImage_call ::
  "runtime \<Rightarrow> fs \<Rightarrow> path \<Rightarrow> path \<Rightarrow> options js_arg \<Rightarrow> errmsg + result \<times> fs" where
  "enhanceImage_call rt fs inputPath outputPath arg =
     (case destructure ''brightness'' no_options arg of
        Inl e \<Rightarrow> Inl e
      | Inr opts \<Rightarrow> Inr (enhanceImage rt fs inputPath outputPath opts))"

definition upscaleImage_call ::
  "runtime \<Rightarrow> fs \<Rightarrow> path \<Rightarrow> path \<Rightarrow> options js_arg \<Rightarrow> errmsg + result \<times> fs" where
  "upscaleImage_call rt fs inputPath outputPath arg =
     (case destructure ''scale'' no_options arg of
        Inl e \<Rightarrow> Inl e
      | Inr opts \<Rightarrow> Inr (upscaleImage rt fs inputPath outputPath opts))"

definition adjustColorBalance_call ::
  "runtime \<Rightarrow> fs \<Rightarrow> path \<Rightarrow> path \<Rightarrow> color_options js_arg \<Rightarrow> errmsg + result \<times> fs" where
  "adjustColorBalance_call rt fs inputPath outputPath arg =
     (case destructure ''temperature'' no_color_options arg of
        Inl e \<Rightarrow> Inl e
      | Inr opts \<Rightarrow> Inr (adjustColorBalance rt fs inputPath outputPath opts))"

definition spread :: "options js_arg \<Rightarrow> options" where
  "spread arg = (case arg of Obj bag \<Rightarrow> bag | Undefined \<Rightarrow> no_options | Null \<Rightarrow> no_options)"

definition restoreImage_call ::
  "runtime \<Rightarrow> fs \<Rightarrow> path \<Rightarrow> path \<Rightarrow> options js_arg \<Rightarrow> errmsg + result \<times> fs" where
  "restoreImage_call rt fs inputPath outputPath arg =
     Inr (restoreImage rt fs inputPath outputPath (spread arg))"

section \<open>A sample runtime and sample file systems\<close>

text \<open>
  To evaluate the methods on concrete inputs a runtime is needed. The sample computes
  exactly on finite numbers, lets sharp reject a gamma outside \<open>1.0-3.0\<close> (the range the
  comment in \<open>enhanceImage\<close> names), a resize to dimensions that are not positive
  integers and an encoder quality that is not an integer from 1 to 100, lets sharp refuse
  to write onto its own input, and lets every other call and every removal of an existing
  file go through.
\<close>

fun sample_mul :: "jsnum \<Rightarrow> jsnum \<Rightarrow> jsnum" where
  "sample_mul (Fin x) (Fin y) = Fin (x * y)"
| "sample_mul a b = NaN"

fun sample_add :: "jsnum \<Rightarrow> jsnum \<Rightarrow> jsnum" where
  "sample_add (Fin x) (Fin y) = Fin (x + y)"
| "sample_add a b = NaN"

fun sample_div :: "jsnum \<Rightarrow> jsnum \<Rightarrow> jsnum" where
  "sample_div (Fin x) (Fin y) = (if y = 0 then NaN else Fin (x / y))"
| "sample_div a b = NaN"

text \<open>Fixed-point notation with \<open>n\<close> digits after the point, for finite values.\<close>

definition sample_toFixed :: "nat \<Rightarrow> jsnum \<Rightarrow> string" where
  "sample_toFixed n a =
     (case a of
        Fin x \<Rightarrow>
          (let k = nat \<lfloor>\<bar>x\<bar> * 10 ^ n + 1 / 2\<rfloor>;
               frac = show_nat (k mod 10 ^ n)
           in (if x < 0 then ''-'' else []) @ show_nat (k div 10 ^ n)
              @ (if n = 0 then [] else ''.'' @ replicate (n - length frac) CHR ''0'' @ frac))
      | NaN \<Rightarrow> ''NaN''
      | PosInf \<Rightarrow> ''Infinity''
      | NegInf \<Rightarrow> ''-Infinity'')"

text \<open>The extension of the last path component, from its last dot on.\<close>

definition sample_extname :: "path \<Rightarrow> string" where
  "sample_extname p =
     (let b = rev (takeWhile (\<lambda>c. c \<noteq> CHR ''/'') (dropWhile (\<lambda>c. c = CHR ''/'') (rev p)));
          e = rev (takeWhile (\<lambda>c. c \<noteq> CHR ''.'') (rev b))
      in if CHR ''.'' \<notin> set b \<or> length b = length e + 1 \<or> b = ''..'' then []
         else CHR ''.'' # e)"

definition positive_integer :: "jsnum \<Rightarrow> bool" where
  "positive_integer a = (case a of Fin x \<Rightarrow> 0 < x \<and> x = of_int \<lfloor>x\<rfloor> | _ \<Rightarrow> False)"

fun sample_op_error :: "op \<Rightarrow> errmsg option" where
  "sample_op_error (Gamma g) =
     (if js_le (Fin 1.0) g \<and> js_le g (Fin 3.0) then None
      else Some ''Expected number between 1.0 and 3.0 for gamma'')"
| "sample_op_error (Resize w h k) =
     (if positive_integer w \<and> positive_integer h then None
      else Some ''Expected positive integer for width and height'')"
| "sample_op_error x = None"

definition quality_of :: "encoder \<Rightarrow> jsnum" where
  "quality_of enc = (case enc of Jpeg q m \<Rightarrow> q | Png q c \<Rightarrow> q | Webp q e \<Rightarrow> q | Avif q e \<Rightarrow> q)"

definition sample_encoder_error :: "encoder \<Rightarrow> errmsg option" where
  "sample_encoder_error enc =
     (if positive_integer (quality_of enc) \<and> js_le (quality_of enc) (Fin 100) then None
      else Some ''Expected integer between 1 and 100 for quality'')"

definition sample_toFile_outcome ::
  "path \<Rightarrow> image_file \<Rightarrow> op list \<Rightarrow> encoder \<Rightarrow> path \<Rightarrow> write_outcome" where
  "sample_toFile_outcome inp src ops enc out =
     (if inp = out then Rejected ''Cannot use same file for input and output'' else Written)"

text \<open>The size of the rendered image: the last resize decides, otherwise the source's.\<close>

fun sample_dims :: "op list \<Rightarrow> nat \<times> nat \<Rightarrow> nat \<times> nat" where
  "sample_dims [] d = d"
| "sample_dims (Resize (Fin w) (Fin h) k # ops) d = sample_dims ops (nat \<lfloor>w\<rfloor>, nat \<lfloor>h\<rfloor>)"
| "sample_dims (x # ops) d = sample_dims ops d"

definition sample_rendered_meta :: "image_file \<Rightarrow> op list \<Rightarrow> encoder \<Rightarrow> metadata" where
  "sample_rendered_meta src ops enc =
     (case meta src of
        Some m \<Rightarrow> m\<lparr>width := fst (sample_dims ops (width m, height m)),
                     height := snd (sample_dims ops (width m, height m))\<rparr>
      | None \<Rightarrow> \<lparr>width = 0, height = 0, format = [], channels = 0, density = None,
                  hasAlpha = False, space = []\<rparr>)"

definition sample_runtime :: runtime where
  "sample_runtime =
     \<lparr>fmul = sample_mul, fadd = sample_add, fdiv = sample_div,
      toFixed = sample_toFixed,
      num_to_string = (\<lambda>x. sample_toFixed 3 (Fin x)),
      extname = sample_extname,
      missing_error = (\<lambda>p. ''Input file is missing: '' @ p),
      decode_error = (\<lambda>p f. ''Input file contains unsupported image format''),
      op_error = sample_op_error,
      encoder_error = sample_encoder_error,
      toFile_outcome = sample_toFile_outcome,
      rendered_meta = sample_rendered_meta,
      rendered_size = (\<lambda>src ops enc. fsize src),
      stat_error = (\<lambda>p. ''ENOENT: no such file or directory, '' @ p),
      unlink_error = (\<lambda>p. None),
      jimp_missing = (\<lambda>p. ''ENOENT: no such file or directory, open '' @ p),
      jimp_read_error = (\<lambda>p f. if meta f = None then Some ''Could not find MIME for Buffer'' else None),
      jimp_op_error = (\<lambda>x. None),
      jimp_outcome = (\<lambda>inp src ops out. Written),
      jimp_meta = (\<lambda>src ops out. meta src),
      jimp_size = (\<lambda>src ops out. fsize src)\<rparr>"

text \<open>
  A 400 by 300 image of the given format, as the test scripts of the repository create
  it, and a file sharp cannot decode.
\<close>

definition test_image :: "string \<Rightarrow> image_file" where
  "test_image fmt =
     \<lparr>fsize = 2048,
      meta = Some \<lparr>width = 400, height = 300, format = fmt, channels = 3, density = Some 72,
                   hasAlpha = False, space = ''srgb''\<rparr>,
      history = []\<rparr>"

definition garbage_file :: image_file where
  "garbage_file = \<lparr>fsize = 16, meta = None, history = []\<rparr>"

definition no_files :: fs where
  "no_files = (\<lambda>p. None)"

definition one_file :: "path \<Rightarrow> image_file \<Rightarrow> fs" where
  "one_file p f = no_files(p \<mapsto> f)"

definition two_files :: "path \<Rightarrow> image_file \<Rightarrow> path \<Rightarrow> image_file \<Rightarrow> fs" where
  "two_files p f q g = no_files(p \<mapsto> f, q \<mapsto> g)"

text \<open>
  The sample runtime with a sharp whose write fails after the output file was created
  (a source that is cut off in the middle), leaving a file that cannot be decoded.
\<close>

definition aborting_runtime :: runtime where
  "aborting_runtime =
     sample_runtime\<lparr>toFile_outcome :=
       (\<lambda>inp src ops enc out. Aborted ''VipsJpeg: Premature end of input file'' garbage_file)\<rparr>"

section \<open>Notions the properties are stated with\<close>

text \<open>
  The dot-extension of a path: the characters after the last dot, when there is at least
  one, none of them is a slash, and the dot is there. \<open>None\<close> for a path without one.
\<close>

definition dot_extension :: "string \<Rightarrow> string option" where
  "dot_extension p =
     (let e = takeWhile (\<lambda>c. c \<noteq> CHR ''.'' \<and> c \<noteq> CHR ''/'') (rev p)
      in if e \<noteq> [] \<and> length e < length p \<and> rev p ! length e = CHR ''.''
         then Some (CHR ''.'' # rev e) else None)"

text \<open>
  The shapes of a returned object: \<open>{ success: true, ... }\<close> without an error,
  exactly \<open>{ success: false, error: e }\<close>, and for the validator \<open>{ valid: true }\<close> or
  exactly \<open>{ valid: false, error: e }\<close>.
\<close>

definition is_success :: "result \<Rightarrow> bool" where
  "is_success r = (success r = Some True \<and> error r = None \<and> valid r = None)"

definition is_failure :: "result \<Rightarrow> bool" where
  "is_failure r =
     (success r = Some False \<and> (case error r of Some e \<Rightarrow> True | None \<Rightarrow> False) \<and>
      valid r = None \<and> message r = None \<and> originalSize r = None \<and> newSize r = None \<and>
      scaleFactor r = None \<and> thumbnailSize r = None \<and> info r = None)"

definition tagged :: "result \<Rightarrow> bool" where
  "tagged r = (is_success r \<or> is_failure r)"

definition is_verdict :: "result \<Rightarrow> bool" where
  "is_verdict r =
     (success r = None \<and> message r = None \<and> originalSize r = None \<and> newSize r = None \<and>
      scaleFactor r = None \<and> thumbnailSize r = None \<and> info r = None \<and>
      (valid r = Some True \<and> error r = None \<or>
       valid r = Some False \<and> (case error r of Some e \<Rightarrow> True | None \<Rightarrow> False)))"

text \<open>
  The container an encoder writes, and the container a target name of \<open>convertFormat\<close>
  asks for (\<open>jpg\<close> is a name of JPEG; names are read without regard to case).
\<close>

fun enc_container :: "encoder \<Rightarrow> string" where
  "enc_container (Jpeg q m) = ''jpeg''"
| "enc_container (Png q c) = ''png''"
| "enc_container (Webp q e) = ''webp''"
| "enc_container (Avif q e) = ''avif''"

definition requested_container :: "string \<Rightarrow> string" where
  "requested_container t = (if toLowerCase t = ''jpg'' then ''jpeg'' else toLowerCase t)"

text \<open>The last library run recorded in a file.\<close>

definition last_stage :: "image_file \<Rightarrow> stage option" where
  "last_stage f = (if history f = [] then None else Some (last (history f)))"

section \<open>Basic facts\<close>

lemma sample_encoder_error_fixed [simp]:
  "sample_encoder_error (Jpeg (Fin 95) m) = None"
  "sample_encoder_error (Jpeg (Fin 85) m) = None"
  "sample_encoder_error (Png (Fin 95) c) = None"
  "sample_encoder_error (Webp (Fin 95) e) = None"
  "sample_encoder_error (Avif (Fin 95) k) = None"
  by (simp_all add: sample_encoder_error_def quality_of_def positive_integer_def js_le_def)

lemma js_le_Fin [simp]: "js_le (Fin x) (Fin y) = (x \<le> y)"
  by (auto simp: js_le_def)

lemma clamp_cases:
  assumes "lo \<le> hi"
  shows "Math_max (Fin lo) (Math_min (Fin hi) a) =
     (case a of NaN \<Rightarrow> NaN | NegInf \<Rightarrow> Fin lo | PosInf \<Rightarrow> Fin hi
      | Fin x \<Rightarrow> if x < lo then Fin lo else if hi < x then Fin hi else Fin x)"
  using assms by (cases a) (auto simp: Math_max_def Math_min_def)

lemma clamp_range:
  assumes "lo \<le> hi" and "a \<noteq> NaN"
  shows "js_le (Fin lo) (Math_max (Fin lo) (Math_min (Fin hi) a)) \<and>
         js_le (Math_max (Fin lo) (Math_min (Fin hi) a)) (Fin hi)"
  using assms by (cases a) (auto simp: clamp_cases)

lemma ext_match_iff:
  "ext_match s \<longleftrightarrow> (\<exists>e. s = CHR ''.'' # e \<and> e \<noteq> [] \<and> (\<forall>c\<in>set e. c \<noteq> CHR ''/'' \<and> c \<noteq> CHR ''.''))"
  by (cases s) (auto simp: list_all_iff)

lemma temp_path_split:
  assumes "e \<noteq> []" and "\<forall>c\<in>set e. c \<noteq> CHR ''/'' \<and> c \<noteq> CHR ''.''"
  shows "temp_path (pre @ CHR ''.'' # e) = pre @ ''_temp'' @ CHR ''.'' # e"
proof (induction pre)
  case Nil
  from assms show ?case by (simp add: list_all_iff)
next
  case (Cons c pre)
  have "\<not> ext_match (c # pre @ CHR ''.'' # e)" by (simp add: list_all_iff)
  with Cons show ?case by simp
qed

lemma temp_path_unchanged:
  "(\<And>pre s. p = pre @ s \<Longrightarrow> \<not> ext_match s) \<Longrightarrow> temp_path p = p"
proof (induction p)
  case Nil
  show ?case by simp
next
  case (Cons c cs)
  have a: "\<not> ext_match (c # cs)" using Cons.prems[of "[]" "c # cs"] by simp
  have "temp_path cs = cs"
  proof (rule Cons.IH)
    fix pre s assume "cs = pre @ s"
    then have "c # cs = (c # pre) @ s" by simp
    then show "\<not> ext_match s" by (rule Cons.prems)
  qed
  with a show ?case by simp
qed

lemma dot_extension_Some:
  assumes "dot_extension p = Some x"
  shows "\<exists>pre e. p = pre @ CHR ''.'' # e \<and> x = CHR ''.'' # e \<and> e \<noteq> [] \<and> (\<forall>c\<in>set e. c \<noteq> CHR ''/'' \<and> c \<noteq> CHR ''.'')"
proof -
  define P where "P = (\<lambda>c. c \<noteq> CHR ''.'' \<and> c \<noteq> CHR ''/'')"
  define e where "e = takeWhile P (rev p)"
  define d where "d = dropWhile P (rev p)"
  from assms have h: "e \<noteq> []" "length e < length p" "rev p ! length e = CHR ''.''" "x = CHR ''.'' # rev e"
    by (auto simp: dot_extension_def Let_def e_def P_def split: if_splits)
  have r: "rev p = e @ d" by (simp add: e_def d_def)
  with h have "d \<noteq> []" by auto
  then obtain y ys where d: "d = y # ys" by (cases d) auto
  with r h have "y = CHR ''.''" by (simp add: nth_append)
  have "rev (rev p) = rev (e @ CHR ''.'' # ys)" using r d \<open>y = CHR ''.''\<close> by simp
  then have "p = rev ys @ CHR ''.'' # rev e" by simp
  moreover have "\<forall>c\<in>set (rev e). c \<noteq> CHR ''/'' \<and> c \<noteq> CHR ''.''"
  proof
    fix c assume "c \<in> set (rev e)"
    then have "c \<in> set (takeWhile P (rev p))" by (simp add: e_def)
    then have "P c" by (rule set_takeWhileD[THEN conjunct2])
    then show "c \<noteq> CHR ''/'' \<and> c \<noteq> CHR ''.''" by (simp add: P_def)
  qed
  ultimately show ?thesis using h by auto
qed

lemma dot_extension_None:
  assumes "dot_extension p = None" and "p = pre @ s"
  shows "\<not> ext_match s"
proof
  assume "ext_match s"
  then obtain e where s: "s = CHR ''.'' # e" "e \<noteq> []" "\<forall>c\<in>set e. c \<noteq> CHR ''/'' \<and> c \<noteq> CHR ''.''"
    by (auto simp: ext_match_iff)
  have r: "rev p = rev e @ CHR ''.'' # rev pre" using assms(2) s by simp
  have t: "takeWhile (\<lambda>c. c \<noteq> CHR ''.'' \<and> c \<noteq> CHR ''/'') (rev p) = rev e"
    unfolding r using s by (subst takeWhile_append2) auto
  have "rev p ! length (rev e) = CHR ''.''" unfolding r by (simp add: nth_append)
  moreover have "length (rev e) < length p" using assms(2) s by simp
  ultimately have "dot_extension p \<noteq> None"
    using s by (simp add: dot_extension_def t Let_def del: length_rev)
  with assms show False by simp
qed

lemma temp_path_by_extension:
  "(case dot_extension p of
      Some e \<Rightarrow> temp_path p = take (length p - length e) p @ ''_temp'' @ e \<and> temp_path p \<noteq> p
    | None \<Rightarrow> temp_path p = p)"
proof (cases "dot_extension p")
  case None
  then have "temp_path p = p" by (intro temp_path_unchanged) (rule dot_extension_None)
  with None show ?thesis by simp
next
  case (Some x)
  from dot_extension_Some[OF Some] obtain pre e where
    h: "p = pre @ CHR ''.'' # e" "x = CHR ''.'' # e" "e \<noteq> []" "\<forall>c\<in>set e. c \<noteq> CHR ''/'' \<and> c \<noteq> CHR ''.''"
    by blast
  have "temp_path p = pre @ ''_temp'' @ CHR ''.'' # e" unfolding h(1) using h(3,4) by (rule temp_path_split)
  moreover have "take (length p - length x) p = pre" using h by simp
  moreover have "length (temp_path p) \<noteq> length p" using calculation h by simp
  ultimately show ?thesis using Some h by auto
qed




lemma sharp_toFile_keeps:
  "sharp_toFile rt fs inp ops enc out = (r, fs') \<Longrightarrow> fs p \<noteq> None \<Longrightarrow> fs' p \<noteq> None"
  by (auto simp: sharp_toFile_def split: option.splits write_outcome.splits)

lemma sharp_toFile_ok:
  assumes "sharp_toFile rt fs inp ops enc out = (Inr u, fs')"
  shows "\<exists>src. fs inp = Some src \<and> meta src \<noteq> None \<and> fs' = fs(out \<mapsto> rendered rt src ops enc)"
  using assms by (auto simp: sharp_toFile_def split: option.splits write_outcome.splits)


lemma enhanceImage_keeps: "fs p \<noteq> None \<Longrightarrow> snd (enhanceImage rt fs inputPath outputPath opts) p \<noteq> None"
  by (auto simp: enhanceImage_def split: option.splits sum.splits prod.splits dest: sharp_toFile_keeps)

lemma is_failure_failure [simp]: "is_failure (failure e)"
  by (simp add: is_failure_def failure_def empty_result_def)

lemma tagged_failure [simp]: "tagged (failure e)"
  by (simp add: tagged_def)

lemma tagged_succeeded [simp]: "tagged (succeeded m)"
  by (simp add: tagged_def is_success_def succeeded_def empty_result_def)

lemma not_truthy_failure [simp]: "\<not> truthy (success (failure e))"
  by (simp add: truthy_def failure_def empty_result_def)

lemma truthy_succeeded [simp]: "truthy (success (succeeded m))"
  by (simp add: truthy_def succeeded_def empty_result_def)

lemma enhanceImage_tagged: "tagged (fst (enhanceImage rt fs inputPath outputPath opts))"
  by (auto simp: enhanceImage_def split: option.splits sum.splits prod.splits)


lemma upscaleImage_keeps: "fs p \<noteq> None \<Longrightarrow> snd (upscaleImage rt fs inputPath outputPath opts) p \<noteq> None"
  by (auto simp: upscaleImage_def split: option.splits sum.splits prod.splits dest: sharp_toFile_keeps)

lemma truthy_upscale_result [simp]: "truthy (success (upscale_result rt md opts))"
  by (simp add: truthy_def upscale_result_def Let_def empty_result_def)

lemma tagged_upscale_result [simp]: "tagged (upscale_result rt md opts)"
  by (simp add: tagged_def is_success_def upscale_result_def Let_def empty_result_def)

lemma upscaleImage_tagged: "tagged (fst (upscaleImage rt fs inputPath outputPath opts))"
  by (auto simp: upscaleImage_def split: option.splits sum.splits prod.splits)

lemma upscaleImage_success:
  assumes "truthy (success (fst (upscaleImage rt fs inputPath outputPath opts)))"
  shows "\<exists>src md. fs inputPath = Some src \<and> meta src = Some md \<and>
           upscaleImage rt fs inputPath outputPath opts =
             (upscale_result rt md opts,
              fs(outputPath \<mapsto> rendered rt src (upscale_ops rt md opts) (upscale_encoder (format md))))"
  using assms
  by (auto simp: upscaleImage_def sharp_metadata_def split: option.splits sum.splits prod.splits
           dest: sharp_toFile_ok)

lemma restoreImage_two_stage:
  assumes "validateInputFile rt fs inputPath = Inr v" and "truthy (valid v)"
    and "scale_exceeds_one (merge_options defaultOptions opts)"
    and "upscaleImage rt fs inputPath (temp_path outputPath)
           (stage1_options (merge_options defaultOptions opts)) = (up, fs1)"
    and "truthy (success up)"
    and "enhanceImage rt fs1 (temp_path outputPath) outputPath (merge_options defaultOptions opts) = (res, fs2)"
  shows "snd (restoreImage rt fs inputPath outputPath opts) =
           (case unlinkSync rt fs2 (temp_path outputPath) of Inl e \<Rightarrow> fs2 | Inr fs' \<Rightarrow> fs')"
    and "fst (restoreImage rt fs inputPath outputPath opts) =
           (if truthy (success res)
            then res\<lparr>message := Some (''Restored and upscaled image ('' @ dflt ''undefined'' (scaleFactor up)
                                      @ '') saved to '' @ outputPath),
                     originalSize := originalSize up, newSize := newSize up\<rparr>
            else res)"
  using assms by (simp_all add: restoreImage_def Let_def)

lemma restoreImage_stage1_failure:
  assumes "validateInputFile rt fs inputPath = Inr v" and "truthy (valid v)"
    and "scale_exceeds_one (merge_options defaultOptions opts)"
    and "\<not> truthy (success (fst (upscaleImage rt fs inputPath (temp_path outputPath)
           (stage1_options (merge_options defaultOptions opts)))))"
  shows "restoreImage rt fs inputPath outputPath opts =
           upscaleImage rt fs inputPath (temp_path outputPath)
             (stage1_options (merge_options defaultOptions opts))"
proof -
  obtain up fs1 where u: "upscaleImage rt fs inputPath (temp_path outputPath)
           (stage1_options (merge_options defaultOptions opts)) = (up, fs1)"
    by (cases "upscaleImage rt fs inputPath (temp_path outputPath)
           (stage1_options (merge_options defaultOptions opts))")
  with assms show ?thesis by (simp add: restoreImage_def Let_def)
qed

lemma restoreImage_single_stage:
  assumes "validateInputFile rt fs inputPath = Inr v" and "truthy (valid v)"
    and "\<not> scale_exceeds_one (merge_options defaultOptions opts)"
  shows "restoreImage rt fs inputPath outputPath opts =
           enhanceImage rt fs inputPath outputPath (merge_options defaultOptions opts)"
  using assms by (simp add: restoreImage_def Let_def)

lemma unlinkSync_removes:
  "fs p \<noteq> None \<Longrightarrow> unlink_error rt p = None \<Longrightarrow> unlinkSync rt fs p = Inr (fs(p := None))"
  by (auto simp: unlinkSync_def)

lemma restoreImage_cleanup:
  assumes "validateInputFile rt fs inputPath = Inr v" and "truthy (valid v)"
    and "scale_exceeds_one (merge_options defaultOptions opts)"
    and "truthy (success (fst (upscaleImage rt fs inputPath (temp_path outputPath)
           (stage1_options (merge_options defaultOptions opts)))))"
    and "unlink_error rt (temp_path outputPath) = None"
  shows "snd (restoreImage rt fs inputPath outputPath opts) (temp_path outputPath) = None"
proof -
  let ?m = "merge_options defaultOptions opts"
  let ?t = "temp_path outputPath"
  obtain up fs1 where u: "upscaleImage rt fs inputPath ?t (stage1_options ?m) = (up, fs1)"
    by (cases "upscaleImage rt fs inputPath ?t (stage1_options ?m)")
  obtain res fs2 where e: "enhanceImage rt fs1 ?t outputPath ?m = (res, fs2)"
    by (cases "enhanceImage rt fs1 ?t outputPath ?m")
  from assms(4) u have t: "truthy (success up)" by simp
  from upscaleImage_success[OF assms(4)] u have "fs1 ?t \<noteq> None" by auto
  then have "fs2 ?t \<noteq> None" using enhanceImage_keeps[of fs1 ?t rt ?t outputPath ?m] e by simp
  then have "unlinkSync rt fs2 ?t = Inr (fs2(?t := None))" using assms(5) by (rule unlinkSync_removes)
  then show ?thesis using restoreImage_two_stage(1)[OF assms(1-3) u t e] by simp
qed

text \<open>
  When the upscale stage fails, a file at the intermediate path (there before the call, or
  left by the failed write) is still there when \<open>restoreImage\<close> returns.
\<close>

lemma restoreImage_stage1_failure_keeps:
  assumes "validateInputFile rt fs inputPath = Inr v" and "truthy (valid v)"
    and "scale_exceeds_one (merge_options defaultOptions opts)"
    and "\<not> truthy (success (fst (upscaleImage rt fs inputPath (temp_path outputPath)
           (stage1_options (merge_options defaultOptions opts)))))"
    and "snd (upscaleImage rt fs inputPath (temp_path outputPath)
           (stage1_options (merge_options defaultOptions opts))) (temp_path outputPath) \<noteq> None"
  shows "snd (restoreImage rt fs inputPath outputPath opts) (temp_path outputPath) \<noteq> None"
  using assms(5) unfolding restoreImage_stage1_failure[OF assms(1-4)] .

lemmas sample_defs =
  sample_runtime_def one_file_def two_files_def no_files_def test_image_def garbage_file_def

lemmas num_defs = js_gt_def js_le_def js_seq_def js_sne_def Math_max_def Math_min_def
  validGamma_def validScale_def validStrength_def newDim_def positive_integer_def

lemmas option_defs = no_options_def defaultOptions_def merge_options_def pick_def dflt_def
  stage1_options_def scale_exceeds_one_def

lemmas lib_defs = statSync_def unlinkSync_def sharp_metadata_def sharp_toFile_def rendered_def
  sample_toFile_outcome_def sample_rendered_meta_def

lemmas result_defs = failure_def succeeded_def invalid_def valid_result_def empty_result_def
  truthy_def

lemmas method_defs = validateInputFile_def enhanceImage_def enhance_ops_def enhance_encoder_def
  upscaleImage_def upscale_ops_def upscale_encoder_def upscale_result_def restoreImage_def
  maxFileSize_def supportedSharpFormats_def supportedFormats_def

lemma validGamma_range:
  "g \<noteq> NaN \<Longrightarrow> js_le (Fin 1.0) (validGamma g) \<and> js_le (validGamma g) (Fin 3.0)"
  unfolding validGamma_def by (rule clamp_range) simp_all

lemma validScale_range:
  "s \<noteq> NaN \<Longrightarrow> js_le (Fin 1.1) (validScale s) \<and> js_le (validScale s) (Fin 8.0)"
  unfolding validScale_def using clamp_range[of "1.1" 8 s] by simp

lemma validStrength_range:
  "s \<noteq> NaN \<Longrightarrow> js_le (Fin 1) (validStrength s) \<and> js_le (validStrength s) (Fin 10)"
  unfolding validStrength_def by (rule clamp_range) simp_all

lemma enhance_encoder_format:
  "enc_format (enhance_encoder fmt) =
     (if fmt = ''png'' then ''png'' else if fmt = ''webp'' then ''webp'' else ''jpeg'')"
  by (simp add: enhance_encoder_def)

text \<open>The object \<open>restoreImage\<close> returns does not depend on whether a removal is refused.\<close>

lemma restoreImage_result_ignores_unlink:
  "fst (restoreImage (rt\<lparr>unlink_error := u\<rparr>) fs inputPath outputPath opts) =
   fst (restoreImage rt fs inputPath outputPath opts)"
proof -
  have sm: "sharp_metadata (rt\<lparr>unlink_error := u\<rparr>) = sharp_metadata rt"
    by (intro ext) (simp add: sharp_metadata_def Let_def cong: sum.case_cong option.case_cong write_outcome.case_cong jsnum.case_cong if_cong)
  have ss: "statSync (rt\<lparr>unlink_error := u\<rparr>) = statSync rt"
    by (intro ext) (simp add: statSync_def Let_def cong: sum.case_cong option.case_cong write_outcome.case_cong jsnum.case_cong if_cong)
  have v: "validateInputFile (rt\<lparr>unlink_error := u\<rparr>) = validateInputFile rt"
    by (intro ext) (simp add: validateInputFile_def sm ss Let_def cong: sum.case_cong option.case_cong write_outcome.case_cong jsnum.case_cong if_cong)
  have st: "sharp_toFile (rt\<lparr>unlink_error := u\<rparr>) = sharp_toFile rt"
    by (intro ext) (simp add: sharp_toFile_def rendered_def Let_def cong: sum.case_cong option.case_cong write_outcome.case_cong jsnum.case_cong if_cong)
  have ur: "upscale_result (rt\<lparr>unlink_error := u\<rparr>) = upscale_result rt"
    by (intro ext) (simp add: upscale_result_def newDim_def js_show_def Let_def cong: sum.case_cong option.case_cong write_outcome.case_cong jsnum.case_cong if_cong)
  have uo: "upscale_ops (rt\<lparr>unlink_error := u\<rparr>) = upscale_ops rt"
    by (intro ext) (simp add: upscale_ops_def newDim_def Let_def cong: sum.case_cong option.case_cong write_outcome.case_cong jsnum.case_cong if_cong)
  have eo: "enhance_ops (rt\<lparr>unlink_error := u\<rparr>) = enhance_ops rt"
    by (intro ext) (simp add: enhance_ops_def Let_def cong: sum.case_cong option.case_cong write_outcome.case_cong jsnum.case_cong if_cong)
  have up: "upscaleImage (rt\<lparr>unlink_error := u\<rparr>) = upscaleImage rt"
    by (intro ext) (simp add: upscaleImage_def st sm ur uo Let_def cong: sum.case_cong option.case_cong write_outcome.case_cong jsnum.case_cong if_cong)
  have en: "enhanceImage (rt\<lparr>unlink_error := u\<rparr>) = enhanceImage rt"
    by (intro ext) (simp add: enhanceImage_def st sm eo Let_def cong: sum.case_cong option.case_cong write_outcome.case_cong jsnum.case_cong if_cong)
  show ?thesis
    by (simp add: restoreImage_def v up en Let_def split: sum.splits prod.splits)
qed

lemma removeNoise_success:
  assumes "truthy (success (fst (removeNoise rt fs inputPath outputPath strength)))"
  shows "\<exists>src md. fs inputPath = Some src \<and> meta src = Some md \<and>
           snd (removeNoise rt fs inputPath outputPath strength) =
              fs(outputPath \<mapsto> rendered rt src (noise_ops (validStrength (dflt (Fin 3) strength)))
                                     (noise_encoder (format md)))"
  using assms
  by (auto simp: removeNoise_def sharp_metadata_def Let_def split: option.splits sum.splits prod.splits
           dest: sharp_toFile_ok)

lemma last_stage_rendered [simp]: "last_stage (rendered rt src ops enc) = Some (SharpStage ops enc)"
  by (simp add: last_stage_def rendered_def)

lemma convertFormat_unsupported:
  assumes "toLowerCase t \<notin> {''jpeg'', ''jpg'', ''png'', ''webp'', ''avif''}"
  shows "convertFormat rt fs inputPath outputPath t q = (failure (''Unsupported target format: '' @ t), fs)"
  using assms by (simp add: convertFormat_def target_encoder_def Let_def)

lemma Math_round_int: "Math_round (Fin (of_int k)) = Fin (of_int k)"
proof -
  have "\<lfloor>(of_int k :: rat) + 1 / 2\<rfloor> = k" by (rule floor_unique) simp_all
  then show ?thesis by simp
qed




lemma truthy_valid_result [simp]: "truthy (valid valid_result)"
  by (simp add: truthy_def valid_result_def empty_result_def)


lemma validateInputFile_verdict: "\<exists>r. validateInputFile rt fs p = Inr r \<and> is_verdict r"
  by (auto simp: validateInputFile_def statSync_def is_verdict_def invalid_def valid_result_def
        empty_result_def Let_def
        split: option.splits sum.splits)

lemma tagged_success_update:
  "is_success r \<Longrightarrow> tagged (r\<lparr>message := a, originalSize := b, newSize := c\<rparr>)"
  by (simp add: tagged_def is_success_def)

lemma tagged_truthy: "tagged r \<Longrightarrow> truthy (success r) \<Longrightarrow> is_success r"
  by (auto simp: tagged_def is_failure_def truthy_def)

lemma restoreImage_tagged: "tagged (fst (restoreImage rt fs inputPath outputPath opts))"
proof -
  let ?m = "merge_options defaultOptions opts"
  let ?t = "temp_path outputPath"
  obtain v where v: "validateInputFile rt fs inputPath = Inr v" "is_verdict v"
    using validateInputFile_verdict by blast
  show ?thesis
  proof (cases "truthy (valid v)")
    case False
    with v(2) obtain e where "error v = Some e"
      by (auto simp: is_verdict_def truthy_def split: option.splits)
    then have "tagged (empty_result\<lparr>success := Some False, error := error v\<rparr>)"
      by (simp add: tagged_def is_failure_def empty_result_def)
    with False v(1) show ?thesis by (simp add: restoreImage_def Let_def)
  next
    case True
    show ?thesis
    proof (cases "scale_exceeds_one ?m")
      case False
      from restoreImage_single_stage[OF v(1) True False] show ?thesis
        by (simp add: enhanceImage_tagged)
    next
      case s: True
      obtain up fs1 where u: "upscaleImage rt fs inputPath ?t (stage1_options ?m) = (up, fs1)"
        by (cases "upscaleImage rt fs inputPath ?t (stage1_options ?m)")
      show ?thesis
      proof (cases "truthy (success up)")
        case False
        then have n: "\<not> truthy (success (fst (upscaleImage rt fs inputPath ?t (stage1_options ?m))))"
          by (simp add: u)
        from restoreImage_stage1_failure[OF v(1) True s n] show ?thesis
          by (simp add: upscaleImage_tagged)
      next
        case tu: True
        obtain res fs2 where e: "enhanceImage rt fs1 ?t outputPath ?m = (res, fs2)"
          by (cases "enhanceImage rt fs1 ?t outputPath ?m")
        have tr: "tagged res" using enhanceImage_tagged[of rt fs1 ?t outputPath ?m] by (simp add: e)
        show ?thesis
          unfolding restoreImage_two_stage(2)[OF v(1) True s u tu e]
          using tr tagged_truthy[OF tr] by (simp add: tagged_success_update)
      qed
    qed
  qed
qed

lemma getImageInfo_tagged: "tagged (fst (getImageInfo rt fs p))"
  by (auto simp: getImageInfo_def tagged_def is_success_def empty_result_def split: sum.splits)

lemma removeNoise_tagged: "tagged (fst (removeNoise rt fs p q strength))"
  by (auto simp: removeNoise_def Let_def split: option.splits sum.splits prod.splits)

lemma adjustColorBalance_tagged: "tagged (fst (adjustColorBalance rt fs p q copts))"
  by (auto simp: adjustColorBalance_def split: option.splits sum.splits prod.splits)

lemma convertFormat_tagged: "tagged (fst (convertFormat rt fs p q t quality))"
  by (auto simp: convertFormat_def split: option.splits sum.splits prod.splits)

lemma createThumbnail_tagged: "tagged (fst (createThumbnail rt fs p q sz))"
  by (auto simp: createThumbnail_def Let_def tagged_def is_success_def empty_result_def
        split: option.splits sum.splits prod.splits)

section \<open>The claims\<close>

subsection \<open>C1: cleanup of the intermediate file\<close>

text \<open>
  Claim C1. In the two-stage plan \<open>restoreImage\<close> deletes the intermediate file before it
  returns on every exit path: two-stage success, failure of the enhance stage and failure
  of the upscale stage alike; a failure to delete never shows in the returned object.

  After a successful upscale stage the removal is attempted whatever the enhance stage
  returns (\<open>restoreImage_cleanup\<close>), and the returned object does not depend on it
  (\<open>restoreImage_result_ignores_unlink\<close>). When the upscale stage fails, the method
  returns the result of that stage at once and the removal is not attempted
  (\<open>restoreImage_stage1_failure\<close>, \<open>restoreImage_stage1_failure_keeps\<close>). Two evaluations
  show a file at the intermediate path after the call has returned a failure: one where a
  file was already there and the source passes validation by its extension but cannot be
  decoded, one where the write of the upscale stage fails after it created the file.
\<close>

theorem restoreImage_stage1_failure_leaves_temp:
  "temp_path ''out.jpg'' = ''out_temp.jpg'' \<and>
   fst (restoreImage sample_runtime
          (two_files ''in.jpg'' garbage_file ''out_temp.jpg'' (test_image ''jpeg''))
          ''in.jpg'' ''out.jpg'' no_options)
     = failure ''Input file contains unsupported image format'' \<and>
   snd (restoreImage sample_runtime
          (two_files ''in.jpg'' garbage_file ''out_temp.jpg'' (test_image ''jpeg''))
          ''in.jpg'' ''out.jpg'' no_options) ''out_temp.jpg''
     = Some (test_image ''jpeg'') \<and>
   fst (restoreImage aborting_runtime (one_file ''in.jpg'' (test_image ''jpeg''))
          ''in.jpg'' ''out.jpg'' no_options)
     = failure ''VipsJpeg: Premature end of input file'' \<and>
   snd (restoreImage aborting_runtime (one_file ''in.jpg'' (test_image ''jpeg''))
          ''in.jpg'' ''out.jpg'' no_options) ''out_temp.jpg''
     = Some garbage_file"
  by (simp add: method_defs sample_defs lib_defs option_defs num_defs result_defs
        aborting_runtime_def sample_extname_def toLowerCase_def lower_char_def)

subsection \<open>C2: one stage or two\<close>




subsection \<open>C3: the clamped parameters\<close>

text \<open>
  Claim C3. For every raw input the gamma used by \<open>enhanceImage\<close> lies in \<open>[1.0, 3.0]\<close>,
  the scale used by \<open>upscaleImage\<close> in \<open>[1.1, 8.0]\<close> and the strength used by
  \<open>removeNoise\<close> in \<open>[1, 10]\<close>; values out of range are clamped to the nearest bound and
  no operation fails only because an input is out of range.

  This holds for every input that is a number (\<open>validGamma_range\<close>, \<open>validScale_range\<close>,
  \<open>validStrength_range\<close>, \<open>clamp_cases\<close>). NaN, which the command line passes on for an
  argument that is not a number, goes through \<open>Math.max(lo, Math.min(hi, x))\<close> unchanged:
  the three values are then NaN, in no range, and sharp rejects the gamma and the resize.
\<close>

theorem clamps_pass_NaN:
  "validGamma NaN = NaN \<and> validScale NaN = NaN \<and> validStrength NaN = NaN \<and>
   \<not> js_le (Fin 1.0) (validGamma NaN) \<and> \<not> js_le (validGamma NaN) (Fin 3.0) \<and>
   fst (enhanceImage sample_runtime (one_file ''in.jpg'' (test_image ''jpeg''))
          ''in.jpg'' ''out.jpg'' (no_options\<lparr>gamma := Some NaN\<rparr>))
     = failure ''Expected number between 1.0 and 3.0 for gamma'' \<and>
   fst (upscaleImage sample_runtime (one_file ''in.jpg'' (test_image ''jpeg''))
          ''in.jpg'' ''out.jpg'' (no_options\<lparr>scale := Some NaN\<rparr>))
     = failure ''Expected positive integer for width and height''"
  by (simp add: method_defs sample_defs lib_defs option_defs num_defs result_defs)

subsection \<open>C4: the dimensions computed by \<open>upscaleImage\<close>\<close>

text \<open>
  Claim C4. For a source of width \<open>w\<close> and height \<open>h\<close> and a requested scale \<open>s\<close>,
  \<open>upscaleImage\<close> resizes to \<open>round(w * clamp(s))\<close> by \<open>round(h * clamp(s))\<close>, each capped at
  \<open>maxWidth\<close> and \<open>maxHeight\<close>, 8000 when not given (the product is the runtime's, whatever
  its rounding). Whenever it succeeds, these are the dimensions of the resize recorded in
  the file it wrote, \<open>originalSize\<close> is \<open>"wxh"\<close> and \<open>newSize\<close> is the two computed
  dimensions joined by \<open>x\<close>. In particular a 400 by 300 source at scale 2, where the two
  products are 800 and 600, is resized to 800 by 600 and the strings are \<open>"400x300"\<close> and
  \<open>"800x600"\<close>.
\<close>

theorem upscaleImage_dimensions:
  "(fs inputPath = Some src \<and> meta src = Some md \<and>
    truthy (success (fst (upscaleImage rt fs inputPath outputPath opts))) \<longrightarrow>
      (let vs = Math_max (Fin 1.1) (Math_min (Fin 8) (dflt (Fin 2) (scale opts)));
           nw = Math_min (Math_round (fmul rt (Fin (of_nat (width md))) vs))
                  (dflt (Fin 8000) (maxWidth opts));
           nh = Math_min (Math_round (fmul rt (Fin (of_nat (height md))) vs))
                  (dflt (Fin 8000) (maxHeight opts))
       in (\<exists>rest enc. snd (upscaleImage rt fs inputPath outputPath opts) outputPath
             = Some (rendered rt src (Resize nw nh (dflt ''lanczos3'' (algorithm opts)) # rest) enc)) \<and>
          originalSize (fst (upscaleImage rt fs inputPath outputPath opts))
             = Some (show_nat (width md) @ ''x'' @ show_nat (height md)) \<and>
          newSize (fst (upscaleImage rt fs inputPath outputPath opts))
             = Some (js_show rt nw @ ''x'' @ js_show rt nh))) \<and>
   (fs inputPath = Some src \<and> meta src = Some md \<and> width md = 400 \<and> height md = 300 \<and>
    scale opts = Some (Fin 2) \<and> maxWidth opts = None \<and> maxHeight opts = None \<and>
    fmul rt (Fin 400) (Fin 2) = Fin 800 \<and> fmul rt (Fin 300) (Fin 2) = Fin 600 \<and>
    truthy (success (fst (upscaleImage rt fs inputPath outputPath opts))) \<longrightarrow>
      (\<exists>rest enc. snd (upscaleImage rt fs inputPath outputPath opts) outputPath
         = Some (rendered rt src (Resize (Fin 800) (Fin 600) (dflt ''lanczos3'' (algorithm opts)) # rest) enc)) \<and>
      originalSize (fst (upscaleImage rt fs inputPath outputPath opts)) = Some ''400x300'' \<and>
      newSize (fst (upscaleImage rt fs inputPath outputPath opts)) = Some ''800x600'')"
proof -
  have general: "(\<exists>rest enc. snd (upscaleImage rt fs inputPath outputPath opts) outputPath
             = Some (rendered rt src (Resize
                  (newDim rt (width md) (validScale (dflt (Fin 2) (scale opts))) (dflt (Fin 8000) (maxWidth opts)))
                  (newDim rt (height md) (validScale (dflt (Fin 2) (scale opts))) (dflt (Fin 8000) (maxHeight opts)))
                  (dflt ''lanczos3'' (algorithm opts)) # rest) enc)) \<and>
          fst (upscaleImage rt fs inputPath outputPath opts) = upscale_result rt md opts"
    if a: "fs inputPath = Some src" "meta src = Some md"
      "truthy (success (fst (upscaleImage rt fs inputPath outputPath opts)))"
  proof -
    from upscaleImage_success[OF a(3)] a(1,2)
    have e: "upscaleImage rt fs inputPath outputPath opts =
               (upscale_result rt md opts,
                fs(outputPath \<mapsto> rendered rt src (upscale_ops rt md opts) (upscale_encoder (format md))))"
      by auto
    show ?thesis
      unfolding e by (auto simp: upscale_ops_def Let_def)
  qed
  have n: "show_nat 400 = ''400''" "show_nat 300 = ''300''" "show_nat 800 = ''800''"
    "show_nat 600 = ''600''"
    by (simp_all add: show_nat.simps)
  have j: "js_show rt (Fin 800) = ''800''" "js_show rt (Fin 600) = ''600''"
    by (simp_all add: js_show_def n)
  have c: "validScale (Fin 2) = Fin 2"
    by (simp add: validScale_def Math_max_def Math_min_def)
  have r: "Math_round (Fin 800) = Fin 800" "Math_round (Fin 600) = Fin 600"
    using Math_round_int[of 800] Math_round_int[of 600] by simp_all
  show ?thesis
  proof (intro conjI impI)
    assume h: "fs inputPath = Some src \<and> meta src = Some md \<and>
      truthy (success (fst (upscaleImage rt fs inputPath outputPath opts)))"
    then show "let vs = Math_max (Fin 1.1) (Math_min (Fin 8) (dflt (Fin 2) (scale opts)));
           nw = Math_min (Math_round (fmul rt (Fin (of_nat (width md))) vs))
                  (dflt (Fin 8000) (maxWidth opts));
           nh = Math_min (Math_round (fmul rt (Fin (of_nat (height md))) vs))
                  (dflt (Fin 8000) (maxHeight opts))
       in (\<exists>rest enc. snd (upscaleImage rt fs inputPath outputPath opts) outputPath
             = Some (rendered rt src (Resize nw nh (dflt ''lanczos3'' (algorithm opts)) # rest) enc)) \<and>
          originalSize (fst (upscaleImage rt fs inputPath outputPath opts))
             = Some (show_nat (width md) @ ''x'' @ show_nat (height md)) \<and>
          newSize (fst (upscaleImage rt fs inputPath outputPath opts))
             = Some (js_show rt nw @ ''x'' @ js_show rt nh)"
      using general[of ] 
      by (simp add: Let_def newDim_def validScale_def upscale_result_def empty_result_def)
  next
    assume h: "fs inputPath = Some src \<and> meta src = Some md \<and> width md = 400 \<and> height md = 300 \<and>
      scale opts = Some (Fin 2) \<and> maxWidth opts = None \<and> maxHeight opts = None \<and>
      fmul rt (Fin 400) (Fin 2) = Fin 800 \<and> fmul rt (Fin 300) (Fin 2) = Fin 600 \<and>
      truthy (success (fst (upscaleImage rt fs inputPath outputPath opts)))"
    then have g: "(\<exists>rest enc. snd (upscaleImage rt fs inputPath outputPath opts) outputPath
             = Some (rendered rt src (Resize
                  (newDim rt (width md) (validScale (dflt (Fin 2) (scale opts))) (dflt (Fin 8000) (maxWidth opts)))
                  (newDim rt (height md) (validScale (dflt (Fin 2) (scale opts))) (dflt (Fin 8000) (maxHeight opts)))
                  (dflt ''lanczos3'' (algorithm opts)) # rest) enc)) \<and>
          fst (upscaleImage rt fs inputPath outputPath opts) = upscale_result rt md opts"
      by (intro general) simp_all
    have d: "newDim rt (width md) (validScale (dflt (Fin 2) (scale opts))) (dflt (Fin 8000) (maxWidth opts)) = Fin 800"
      "newDim rt (height md) (validScale (dflt (Fin 2) (scale opts))) (dflt (Fin 8000) (maxHeight opts)) = Fin 600"
      using h by (simp_all add: newDim_def dflt_def c r Math_min_def del: Math_round.simps)
    from g show "\<exists>rest enc. snd (upscaleImage rt fs inputPath outputPath opts) outputPath
         = Some (rendered rt src (Resize (Fin 800) (Fin 600) (dflt ''lanczos3'' (algorithm opts)) # rest) enc)"
      by (simp add: d)
    from g h show "originalSize (fst (upscaleImage rt fs inputPath outputPath opts)) = Some ''400x300''"
      by (simp add: upscale_result_def Let_def empty_result_def n)
    from g show "newSize (fst (upscaleImage rt fs inputPath outputPath opts)) = Some ''800x600''"
      by (simp add: upscale_result_def Let_def empty_result_def d j)
  qed
qed

theorem upscaleImage_dimensions_witness:
  "(\<exists>rest enc. snd (upscaleImage sample_runtime (one_file ''in.jpg'' (test_image ''jpeg''))
                      ''in.jpg'' ''out.jpg'' (no_options\<lparr>scale := Some (Fin 2)\<rparr>)) ''out.jpg''
      = Some (rendered sample_runtime (test_image ''jpeg'')
                (Resize (Fin 800) (Fin 600) ''lanczos3'' # rest) enc)) \<and>
   originalSize (fst (upscaleImage sample_runtime (one_file ''in.jpg'' (test_image ''jpeg''))
                        ''in.jpg'' ''out.jpg'' (no_options\<lparr>scale := Some (Fin 2)\<rparr>)))
      = Some ''400x300'' \<and>
   newSize (fst (upscaleImage sample_runtime (one_file ''in.jpg'' (test_image ''jpeg''))
                   ''in.jpg'' ''out.jpg'' (no_options\<lparr>scale := Some (Fin 2)\<rparr>)))
      = Some ''800x600''"
proof -
  let ?fs = "one_file ''in.jpg'' (test_image ''jpeg'')"
  let ?md = "\<lparr>width = 400, height = 300, format = ''jpeg'', channels = 3, density = Some 72,
               hasAlpha = False, space = ''srgb''\<rparr>"
  let ?o = "no_options\<lparr>scale := Some (Fin 2)\<rparr>"
  have f: "?fs ''in.jpg'' = Some (test_image ''jpeg'')" by (simp add: one_file_def)
  have m: "meta (test_image ''jpeg'') = Some ?md" by (simp add: test_image_def)
  have o: "scale ?o = Some (Fin 2)" "maxWidth ?o = None" "maxHeight ?o = None" "algorithm ?o = None"
    by (simp_all add: no_options_def)
  have a: "fmul sample_runtime (Fin 400) (Fin 2) = Fin 800"
    "fmul sample_runtime (Fin 300) (Fin 2) = Fin 600"
    by (simp_all add: sample_runtime_def)
  have s: "truthy (success (fst (upscaleImage sample_runtime ?fs ''in.jpg'' ''out.jpg'' ?o)))"
    by (simp add: method_defs sample_defs lib_defs option_defs num_defs result_defs Let_def)
  show ?thesis
    using upscaleImage_dimensions[where rt = sample_runtime and fs = "?fs" and inputPath = "''in.jpg''"
        and outputPath = "''out.jpg''" and opts = "?o" and src = "test_image ''jpeg''" and md = "?md"]
      f m o a s
    by (simp add: dflt_def)
qed

subsection \<open>C5: the container written by \<open>enhanceImage\<close>\<close>

text \<open>
  Claim C5. For every supported source format \<open>enhanceImage\<close> writes its output in the
  container of the source, at a fixed high quality.

  The method keeps PNG and WEBP (\<open>enhance_encoder_format\<close>) and writes every other source
  as JPEG, although its comment says "Output in original format": a TIFF source, which
  \<open>validateInputFile\<close> accepts, is written as a JPEG file.
\<close>

theorem enhanceImage_tiff_becomes_jpeg:
  "''tiff'' \<in> set supportedSharpFormats \<and>
   fst (enhanceImage sample_runtime (one_file ''scan.tiff'' (test_image ''tiff''))
          ''scan.tiff'' ''out.tiff'' no_options)
     = succeeded ''Enhanced image saved to out.tiff'' \<and>
   map_option last_stage
     (snd (enhanceImage sample_runtime (one_file ''scan.tiff'' (test_image ''tiff''))
             ''scan.tiff'' ''out.tiff'' no_options) ''out.tiff'')
     = Some (Some (SharpStage [] (Jpeg (Fin 95) True))) \<and>
   map_option (map_option format \<circ> meta)
     (snd (enhanceImage sample_runtime (one_file ''scan.tiff'' (test_image ''tiff''))
             ''scan.tiff'' ''out.tiff'' no_options) ''out.tiff'')
     = Some (Some ''jpeg'')"
  by (simp add: method_defs sample_defs lib_defs option_defs num_defs result_defs last_stage_def)

subsection \<open>C6: the input validator\<close>

text \<open>
  Claim C6. \<open>validateInputFile\<close> answers invalid for a path that does not exist and for
  a file larger than 100 MiB. Otherwise, when sharp decodes the file, the answer depends
  only on the decoded format: valid exactly for jpeg, png, webp, tiff, gif, avif and heif,
  whatever the extension of the path. The extension is looked at only when sharp cannot
  decode the file, and then the answer is valid exactly for the listed extensions.
\<close>

theorem validateInputFile_policy:
  "(fs p = None \<longrightarrow> validateInputFile rt fs p = Inr (invalid ''File does not exist'')) \<and>
   (fs p = Some f \<and> 100 * 1024 * 1024 < fsize f \<longrightarrow>
      validateInputFile rt fs p = Inr (invalid ''File too large. Maximum size: 100MB'')) \<and>
   (fs p = Some f \<and> fsize f \<le> 100 * 1024 * 1024 \<and> meta f = Some md \<longrightarrow>
      validateInputFile rt fs p =
        (if format md \<in> {''jpeg'', ''png'', ''webp'', ''tiff'', ''gif'', ''avif'', ''heif''}
         then Inr valid_result
         else Inr (invalid (''Unsupported format: '' @ format md
                @ ''. Supported formats: jpeg, png, webp, tiff, gif, avif, heif'')))) \<and>
   (fs p = Some f \<and> fsize f \<le> 100 * 1024 * 1024 \<and> meta f = None \<longrightarrow>
      validateInputFile rt fs p =
        (if toLowerCase (extname rt p) \<in> {''.jpg'', ''.jpeg'', ''.png'', ''.webp'', ''.tiff'', ''.bmp'', ''.avif''}
         then Inr valid_result
         else Inr (invalid ''Unsupported format. Unable to process file.'')))"
proof -
  have s: "show_nat 100 = ''100''"
    by (simp add: show_nat.simps)
  show ?thesis
    by (auto simp: validateInputFile_def statSync_def sharp_metadata_def s maxFileSize_def
          supportedSharpFormats_def supportedFormats_def Let_def)
qed

theorem validateInputFile_policy_witness:
  "validateInputFile sample_runtime no_files ''nonexistent.jpg'' = Inr (invalid ''File does not exist'') \<and>
   validateInputFile sample_runtime (one_file ''big.jpg'' ((test_image ''jpeg'')\<lparr>fsize := 104857601\<rparr>)) ''big.jpg''
     = Inr (invalid ''File too large. Maximum size: 100MB'') \<and>
   validateInputFile sample_runtime (one_file ''upload_3f9a.xyz'' (test_image ''png'')) ''upload_3f9a.xyz''
     = Inr valid_result \<and>
   validateInputFile sample_runtime (one_file ''notes.txt'' garbage_file) ''notes.txt''
     = Inr (invalid ''Unsupported format. Unable to process file.'')"
proof -
  have e: "toLowerCase (extname sample_runtime ''notes.txt'') = ''.txt''"
    by (simp add: sample_runtime_def sample_extname_def toLowerCase_def lower_char_def)
  show ?thesis
    using validateInputFile_policy[where fs = no_files and p = "''nonexistent.jpg''"
         and rt = sample_runtime]
      validateInputFile_policy[where fs = "one_file ''big.jpg'' ((test_image ''jpeg'')\<lparr>fsize := 104857601\<rparr>)"
         and p = "''big.jpg''" and rt = sample_runtime
         and f = "(test_image ''jpeg'')\<lparr>fsize := 104857601\<rparr>"]
      validateInputFile_policy[where fs = "one_file ''upload_3f9a.xyz'' (test_image ''png'')"
         and p = "''upload_3f9a.xyz''" and rt = sample_runtime and f = "test_image ''png''"
         and md = "\<lparr>width = 400, height = 300, format = ''png'', channels = 3, density = Some 72,
           hasAlpha = False, space = ''srgb''\<rparr>"]
      validateInputFile_policy[where fs = "one_file ''notes.txt'' garbage_file" and p = "''notes.txt''"
         and rt = sample_runtime and f = garbage_file]
    by (simp add: one_file_def no_files_def test_image_def garbage_file_def e)
qed

subsection \<open>C7: the targets of \<open>convertFormat\<close>\<close>

text \<open>
  Claim C7. \<open>convertFormat\<close> fails with the error "Unsupported target format" for every
  target name outside JPEG (\<open>jpeg\<close>, \<open>jpg\<close>), PNG, WEBP and AVIF, leaving the file system
  as it was. For a target inside that set it hands sharp one encoder, that of the requested
  container at the caller's quality (95 when not given): \<open>jpeg\<close> with \<open>mozjpeg\<close>, \<open>png\<close> with
  compression level 6, \<open>webp\<close> with effort 6, \<open>avif\<close> with effort 4. On a source that sharp
  decodes, when sharp accepts that encoder and writes the file, the call succeeds and the
  file at the output path is the source encoded by it. The other outcomes on a supported
  target are sharp's own: its refusal of the encoder options, or a missing source.
\<close>

theorem convertFormat_targets:
  "(toLowerCase t \<notin> {''jpeg'', ''jpg'', ''png'', ''webp'', ''avif''} \<longrightarrow>
      convertFormat rt fs inputPath outputPath t q
        = (failure (''Unsupported target format: '' @ t), fs)) \<and>
   (let quality = (case q of None \<Rightarrow> Fin 95 | Some x \<Rightarrow> x);
        enc = (if toLowerCase t = ''png'' then Png quality (Some 6)
               else if toLowerCase t = ''webp'' then Webp quality (Some 6)
               else if toLowerCase t = ''avif'' then Avif quality 4
               else Jpeg quality True)
    in toLowerCase t \<in> {''jpeg'', ''jpg'', ''png'', ''webp'', ''avif''} \<longrightarrow>
         enc_container enc = requested_container t \<and>
         (fs inputPath = Some src \<and> meta src = Some md \<and> encoder_error rt enc = None \<and>
          toFile_outcome rt inputPath src [] enc outputPath = Written \<longrightarrow>
            convertFormat rt fs inputPath outputPath t q
              = (succeeded (''Converted to '' @ toUpperCase t @ '' and saved to '' @ outputPath),
                 fs(outputPath \<mapsto> rendered rt src [] enc))) \<and>
         (\<forall>e. encoder_error rt enc = Some e \<longrightarrow>
            convertFormat rt fs inputPath outputPath t q = (failure e, fs)) \<and>
         (fs inputPath = None \<and> encoder_error rt enc = None \<longrightarrow>
            convertFormat rt fs inputPath outputPath t q = (failure (missing_error rt inputPath), fs)))"
proof (intro conjI impI)
  assume "toLowerCase t \<notin> {''jpeg'', ''jpg'', ''png'', ''webp'', ''avif''}"
  then show "convertFormat rt fs inputPath outputPath t q
        = (failure (''Unsupported target format: '' @ t), fs)"
    by (rule convertFormat_unsupported)
next
  define quality where "quality = (case q of None \<Rightarrow> Fin 95 | Some x \<Rightarrow> x)"
  define enc where "enc = (if toLowerCase t = ''png'' then Png quality (Some 6)
               else if toLowerCase t = ''webp'' then Webp quality (Some 6)
               else if toLowerCase t = ''avif'' then Avif quality 4
               else Jpeg quality True)"
  have te: "target_encoder t (dflt (Fin 95) q) = Some enc"
    if "toLowerCase t \<in> {''jpeg'', ''jpg'', ''png'', ''webp'', ''avif''}"
    using that by (auto simp: target_encoder_def Let_def enc_def quality_def dflt_def)
  have "toLowerCase t \<in> {''jpeg'', ''jpg'', ''png'', ''webp'', ''avif''} \<longrightarrow>
         enc_container enc = requested_container t \<and>
         (fs inputPath = Some src \<and> meta src = Some md \<and> encoder_error rt enc = None \<and>
          toFile_outcome rt inputPath src [] enc outputPath = Written \<longrightarrow>
            convertFormat rt fs inputPath outputPath t q
              = (succeeded (''Converted to '' @ toUpperCase t @ '' and saved to '' @ outputPath),
                 fs(outputPath \<mapsto> rendered rt src [] enc))) \<and>
         (\<forall>e. encoder_error rt enc = Some e \<longrightarrow>
            convertFormat rt fs inputPath outputPath t q = (failure e, fs)) \<and>
         (fs inputPath = None \<and> encoder_error rt enc = None \<longrightarrow>
            convertFormat rt fs inputPath outputPath t q = (failure (missing_error rt inputPath), fs))"
  proof (intro impI conjI allI)
    assume s: "toLowerCase t \<in> {''jpeg'', ''jpg'', ''png'', ''webp'', ''avif''}"
    then show "enc_container enc = requested_container t"
      by (auto simp: enc_def requested_container_def)
    {
      assume h: "fs inputPath = Some src \<and> meta src = Some md \<and> encoder_error rt enc = None \<and>
          toFile_outcome rt inputPath src [] enc outputPath = Written"
      then have w: "sharp_toFile rt fs inputPath [] enc outputPath
                      = (Inr (), fs(outputPath \<mapsto> rendered rt src [] enc))"
        by (simp add: sharp_toFile_def)
      from h show "convertFormat rt fs inputPath outputPath t q
              = (succeeded (''Converted to '' @ toUpperCase t @ '' and saved to '' @ outputPath),
                 fs(outputPath \<mapsto> rendered rt src [] enc))"
        by (simp add: convertFormat_def te[OF s] w)
    }
    {
      fix e assume "encoder_error rt enc = Some e"
      then show "convertFormat rt fs inputPath outputPath t q = (failure e, fs)"
        by (simp add: convertFormat_def te[OF s])
    }
    {
      assume "fs inputPath = None \<and> encoder_error rt enc = None"
      then show "convertFormat rt fs inputPath outputPath t q = (failure (missing_error rt inputPath), fs)"
        by (simp add: convertFormat_def te[OF s] sharp_toFile_def)
    }
  qed
  then show "let quality = (case q of None \<Rightarrow> Fin 95 | Some x \<Rightarrow> x);
        enc = (if toLowerCase t = ''png'' then Png quality (Some 6)
               else if toLowerCase t = ''webp'' then Webp quality (Some 6)
               else if toLowerCase t = ''avif'' then Avif quality 4
               else Jpeg quality True)
    in toLowerCase t \<in> {''jpeg'', ''jpg'', ''png'', ''webp'', ''avif''} \<longrightarrow>
         enc_container enc = requested_container t \<and>
         (fs inputPath = Some src \<and> meta src = Some md \<and> encoder_error rt enc = None \<and>
          toFile_outcome rt inputPath src [] enc outputPath = Written \<longrightarrow>
            convertFormat rt fs inputPath outputPath t q
              = (succeeded (''Converted to '' @ toUpperCase t @ '' and saved to '' @ outputPath),
                 fs(outputPath \<mapsto> rendered rt src [] enc))) \<and>
         (\<forall>e. encoder_error rt enc = Some e \<longrightarrow>
            convertFormat rt fs inputPath outputPath t q = (failure e, fs)) \<and>
         (fs inputPath = None \<and> encoder_error rt enc = None \<longrightarrow>
            convertFormat rt fs inputPath outputPath t q = (failure (missing_error rt inputPath), fs))"
    unfolding Let_def enc_def quality_def .
qed

theorem convertFormat_targets_witness:
  "convertFormat sample_runtime (one_file ''in.jpg'' (test_image ''jpeg'')) ''in.jpg'' ''out.bmp''
      ''bmp'' None
     = (failure ''Unsupported target format: bmp'', one_file ''in.jpg'' (test_image ''jpeg'')) \<and>
   convertFormat sample_runtime (one_file ''in.jpg'' (test_image ''jpeg'')) ''in.jpg''
      ''out.webp'' ''webp'' (Some (Fin 90))
     = (succeeded ''Converted to WEBP and saved to out.webp'',
        (one_file ''in.jpg'' (test_image ''jpeg''))
          (''out.webp'' \<mapsto> rendered sample_runtime (test_image ''jpeg'') []
                                 (Webp (Fin 90) (Some 6)))) \<and>
   enc_container (Webp (Fin 90) (Some 6)) = requested_container ''webp'' \<and>
   convertFormat sample_runtime (one_file ''in.jpg'' (test_image ''jpeg'')) ''in.jpg''
      ''out.webp'' ''webp'' (Some (Fin 150))
     = (failure ''Expected integer between 1 and 100 for quality'',
        one_file ''in.jpg'' (test_image ''jpeg'')) \<and>
   convertFormat sample_runtime no_files ''in.jpg'' ''out.jpg'' ''JPG'' None
     = (failure ''Input file is missing: in.jpg'', no_files)"
proof -
  let ?fs = "one_file ''in.jpg'' (test_image ''jpeg'')"
  have l: "toLowerCase ''bmp'' = ''bmp''" "toLowerCase ''webp'' = ''webp''"
    "toUpperCase ''webp'' = ''WEBP''" "toLowerCase ''JPG'' = ''jpg''"
    by (simp_all add: toLowerCase_def lower_char_def toUpperCase_def upper_char_def)
  have f: "?fs ''in.jpg'' = Some (test_image ''jpeg'')" "no_files ''in.jpg'' = None"
    by (simp_all add: one_file_def no_files_def)
  have m: "meta (test_image ''jpeg'') = Some \<lparr>width = 400, height = 300, format = ''jpeg'',
             channels = 3, density = Some 72, hasAlpha = False, space = ''srgb''\<rparr>"
    by (simp add: test_image_def)
  have a: "encoder_error sample_runtime (Webp (Fin 90) (Some 6)) = None"
    "encoder_error sample_runtime (Webp (Fin 150) (Some 6))
       = Some ''Expected integer between 1 and 100 for quality''"
    "encoder_error sample_runtime (Jpeg (Fin 95) True) = None"
    "toFile_outcome sample_runtime ''in.jpg'' (test_image ''jpeg'') [] (Webp (Fin 90) (Some 6))
       ''out.webp'' = Written"
    "missing_error sample_runtime ''in.jpg'' = ''Input file is missing: in.jpg''"
    by (simp_all add: sample_runtime_def sample_toFile_outcome_def sample_encoder_error_def
          quality_of_def positive_integer_def)
  note w1 = convertFormat_targets[where t = "''bmp''" and rt = sample_runtime and fs = "?fs"
         and inputPath = "''in.jpg''" and outputPath = "''out.bmp''" and q = None]
  note w2 = convertFormat_targets[where t = "''webp''" and rt = sample_runtime and fs = "?fs"
         and inputPath = "''in.jpg''" and outputPath = "''out.webp''" and q = "Some (Fin 90)"
         and src = "test_image ''jpeg''"]
  note w3 = convertFormat_targets[where t = "''webp''" and rt = sample_runtime and fs = "?fs"
         and inputPath = "''in.jpg''" and outputPath = "''out.webp''" and q = "Some (Fin 150)"]
  note w4 = convertFormat_targets[where t = "''JPG''" and rt = sample_runtime and fs = no_files
         and inputPath = "''in.jpg''" and outputPath = "''out.jpg''" and q = None]
  from w1 l have c1: "convertFormat sample_runtime ?fs ''in.jpg'' ''out.bmp'' ''bmp'' None
     = (failure ''Unsupported target format: bmp'', ?fs)" by simp
  from w2 l f m a have c2: "convertFormat sample_runtime ?fs ''in.jpg'' ''out.webp'' ''webp'' (Some (Fin 90))
     = (succeeded ''Converted to WEBP and saved to out.webp'',
        ?fs(''out.webp'' \<mapsto> rendered sample_runtime (test_image ''jpeg'') [] (Webp (Fin 90) (Some 6))))"
    and c3: "enc_container (Webp (Fin 90) (Some 6)) = requested_container ''webp''"
    by (simp_all add: Let_def)
  from w3 l a have c4: "convertFormat sample_runtime ?fs ''in.jpg'' ''out.webp'' ''webp'' (Some (Fin 150))
     = (failure ''Expected integer between 1 and 100 for quality'', ?fs)"
    by (simp add: Let_def)
  from w4 l f a have c5: "convertFormat sample_runtime no_files ''in.jpg'' ''out.jpg'' ''JPG'' None
     = (failure ''Input file is missing: in.jpg'', no_files)"
    by (simp add: Let_def)
  from c1 c2 c3 c4 c5 show ?thesis by (intro conjI)
qed

subsection \<open>C8: the three tiers of \<open>removeNoise\<close>\<close>

text \<open>
  Claim C8. \<open>removeNoise\<close> works in three tiers on the strength clamped to \<open>[1, 10]\<close>, that
  is on \<open>max(1, min(10, strength))\<close> with 3 for a strength not given. Whenever it succeeds,
  its message names the clamped strength and the file it wrote records these calls: for a
  clamped strength of at most 3 one median pass of that size and nothing else; from 4 to 6
  a median of size 3, a blur of 0.5 and a sharpen, with no change of brightness; above 6 a
  median of size 3, a blur of 0.8, a sharpen and a brightness of 1.02. The three traces
  differ from one another.
\<close>

theorem removeNoise_tiers:
  "(let v = Math_max (Fin 1) (Math_min (Fin 10) (case strength of None \<Rightarrow> Fin 3 | Some s \<Rightarrow> s))
    in truthy (success (fst (removeNoise rt fs inputPath outputPath strength))) \<longrightarrow>
         fst (removeNoise rt fs inputPath outputPath strength)
           = succeeded (''Noise removed (strength: '' @ js_show rt v @ '') and saved to ''
                        @ outputPath) \<and>
         (\<exists>f enc. snd (removeNoise rt fs inputPath outputPath strength) outputPath = Some f \<and>
            (js_le v (Fin 3) \<longrightarrow> last_stage f = Some (SharpStage [Median v] enc)) \<and>
            (js_le (Fin 4) v \<and> js_le v (Fin 6) \<longrightarrow>
               last_stage f = Some (SharpStage [Median (Fin 3), Blur (Fin 0.5), Sharpen] enc)) \<and>
            (js_gt v (Fin 6) \<longrightarrow>
               last_stage f = Some (SharpStage [Median (Fin 3), Blur (Fin 0.8), Sharpen,
                                                Modulate (Some (Fin 1.02)) None None] enc)))) \<and>
   [Median v'] \<noteq> [Median (Fin 3), Blur (Fin 0.5), Sharpen] \<and>
   [Median v'] \<noteq> [Median (Fin 3), Blur (Fin 0.8), Sharpen, Modulate (Some (Fin 1.02)) None None] \<and>
   [Median (Fin 3), Blur (Fin 0.5), Sharpen] \<noteq>
     [Median (Fin 3), Blur (Fin 0.8), Sharpen, Modulate (Some (Fin 1.02)) None None]"
proof (intro conjI)
  define v where "v = Math_max (Fin 1) (Math_min (Fin 10) (case strength of None \<Rightarrow> Fin 3 | Some s \<Rightarrow> s))"
  have vv: "validStrength (dflt (Fin 3) strength) = v"
    by (simp add: v_def validStrength_def dflt_def)
  have "truthy (success (fst (removeNoise rt fs inputPath outputPath strength))) \<longrightarrow>
         fst (removeNoise rt fs inputPath outputPath strength)
           = succeeded (''Noise removed (strength: '' @ js_show rt v @ '') and saved to ''
                        @ outputPath) \<and>
         (\<exists>f enc. snd (removeNoise rt fs inputPath outputPath strength) outputPath = Some f \<and>
            (js_le v (Fin 3) \<longrightarrow> last_stage f = Some (SharpStage [Median v] enc)) \<and>
            (js_le (Fin 4) v \<and> js_le v (Fin 6) \<longrightarrow>
               last_stage f = Some (SharpStage [Median (Fin 3), Blur (Fin 0.5), Sharpen] enc)) \<and>
            (js_gt v (Fin 6) \<longrightarrow>
               last_stage f = Some (SharpStage [Median (Fin 3), Blur (Fin 0.8), Sharpen,
                                                Modulate (Some (Fin 1.02)) None None] enc)))"
  proof (intro impI conjI)
    assume a: "truthy (success (fst (removeNoise rt fs inputPath outputPath strength)))"
    from removeNoise_success[OF a] obtain src md where
      h0: "fs inputPath = Some src" "meta src = Some md" and
      h: "snd (removeNoise rt fs inputPath outputPath strength) =
            fs(outputPath \<mapsto> rendered rt src (noise_ops v) (noise_encoder (format md)))"
      by (auto simp: vv)
    from a show "fst (removeNoise rt fs inputPath outputPath strength)
           = succeeded (''Noise removed (strength: '' @ js_show rt v @ '') and saved to ''
                        @ outputPath)"
      by (auto simp: removeNoise_def vv Let_def split: sum.splits option.splits prod.splits)
    have 1: "js_le v (Fin 3) \<Longrightarrow> noise_ops v = [Median v]" by (simp add: noise_ops_def)
    have 2: "js_le (Fin 4) v \<and> js_le v (Fin 6) \<Longrightarrow>
               noise_ops v = [Median (Fin 3), Blur (Fin 0.5), Sharpen]"
      by (cases v) (auto simp: noise_ops_def js_le_def)
    have 3: "js_gt v (Fin 6) \<Longrightarrow> noise_ops v = [Median (Fin 3), Blur (Fin 0.8), Sharpen,
                                             Modulate (Some (Fin 1.02)) None None]"
      by (cases v) (auto simp: noise_ops_def js_le_def js_gt_def)
    show "\<exists>f enc. snd (removeNoise rt fs inputPath outputPath strength) outputPath = Some f \<and>
            (js_le v (Fin 3) \<longrightarrow> last_stage f = Some (SharpStage [Median v] enc)) \<and>
            (js_le (Fin 4) v \<and> js_le v (Fin 6) \<longrightarrow>
               last_stage f = Some (SharpStage [Median (Fin 3), Blur (Fin 0.5), Sharpen] enc)) \<and>
            (js_gt v (Fin 6) \<longrightarrow>
               last_stage f = Some (SharpStage [Median (Fin 3), Blur (Fin 0.8), Sharpen,
                                                Modulate (Some (Fin 1.02)) None None] enc))"
      using 1 2 3 by (intro exI[of _ "rendered rt src (noise_ops v) (noise_encoder (format md))"]
                        exI[of _ "noise_encoder (format md)"]) (simp add: h)
  qed
  then show "let v = Math_max (Fin 1) (Math_min (Fin 10) (case strength of None \<Rightarrow> Fin 3 | Some s \<Rightarrow> s))
    in truthy (success (fst (removeNoise rt fs inputPath outputPath strength))) \<longrightarrow>
         fst (removeNoise rt fs inputPath outputPath strength)
           = succeeded (''Noise removed (strength: '' @ js_show rt v @ '') and saved to ''
                        @ outputPath) \<and>
         (\<exists>f enc. snd (removeNoise rt fs inputPath outputPath strength) outputPath = Some f \<and>
            (js_le v (Fin 3) \<longrightarrow> last_stage f = Some (SharpStage [Median v] enc)) \<and>
            (js_le (Fin 4) v \<and> js_le v (Fin 6) \<longrightarrow>
               last_stage f = Some (SharpStage [Median (Fin 3), Blur (Fin 0.5), Sharpen] enc)) \<and>
            (js_gt v (Fin 6) \<longrightarrow>
               last_stage f = Some (SharpStage [Median (Fin 3), Blur (Fin 0.8), Sharpen,
                                                Modulate (Some (Fin 1.02)) None None] enc)))"
    unfolding Let_def v_def .
qed simp_all

theorem removeNoise_tiers_witness:
  "(\<exists>f enc. snd (removeNoise sample_runtime (one_file ''in.jpg'' (test_image ''jpeg''))
                    ''in.jpg'' ''out.jpg'' (Some (Fin 0))) ''out.jpg'' = Some f \<and>
             last_stage f = Some (SharpStage [Median (Fin 1)] enc)) \<and>
   (\<exists>f enc. snd (removeNoise sample_runtime (one_file ''in.jpg'' (test_image ''jpeg''))
                    ''in.jpg'' ''out.jpg'' (Some (Fin 2))) ''out.jpg'' = Some f \<and>
             last_stage f = Some (SharpStage [Median (Fin 2)] enc)) \<and>
   (\<exists>f enc. snd (removeNoise sample_runtime (one_file ''in.jpg'' (test_image ''jpeg''))
                    ''in.jpg'' ''out.jpg'' (Some (Fin 5))) ''out.jpg'' = Some f \<and>
             last_stage f = Some (SharpStage [Median (Fin 3), Blur (Fin 0.5), Sharpen] enc)) \<and>
   (\<exists>f enc. snd (removeNoise sample_runtime (one_file ''in.jpg'' (test_image ''jpeg''))
                    ''in.jpg'' ''out.jpg'' (Some (Fin 8))) ''out.jpg'' = Some f \<and>
             last_stage f = Some (SharpStage [Median (Fin 3), Blur (Fin 0.8), Sharpen,
                                              Modulate (Some (Fin 1.02)) None None] enc)) \<and>
   fst (removeNoise sample_runtime (one_file ''in.jpg'' (test_image ''jpeg''))
          ''in.jpg'' ''out.jpg'' (Some (Fin 15)))
     = succeeded ''Noise removed (strength: 10) and saved to out.jpg'' \<and>
   (\<exists>f enc. snd (removeNoise sample_runtime (one_file ''in.jpg'' (test_image ''jpeg''))
                    ''in.jpg'' ''out.jpg'' (Some (Fin 15))) ''out.jpg'' = Some f \<and>
             last_stage f = Some (SharpStage [Median (Fin 3), Blur (Fin 0.8), Sharpen,
                                              Modulate (Some (Fin 1.02)) None None] enc))"
proof -
  let ?fs = "one_file ''in.jpg'' (test_image ''jpeg'')"
  have s: "truthy (success (fst (removeNoise sample_runtime ?fs ''in.jpg'' ''out.jpg'' (Some (Fin 0)))))"
      "truthy (success (fst (removeNoise sample_runtime ?fs ''in.jpg'' ''out.jpg'' (Some (Fin 2)))))"
      "truthy (success (fst (removeNoise sample_runtime ?fs ''in.jpg'' ''out.jpg'' (Some (Fin 5)))))"
      "truthy (success (fst (removeNoise sample_runtime ?fs ''in.jpg'' ''out.jpg'' (Some (Fin 8)))))"
      "truthy (success (fst (removeNoise sample_runtime ?fs ''in.jpg'' ''out.jpg'' (Some (Fin 15)))))"
    by (simp_all add: removeNoise_def noise_ops_def noise_encoder_def sample_defs lib_defs num_defs
          result_defs dflt_def Let_def)
  have v: "Math_max (Fin 1) (Math_min (Fin 10) (Fin 0)) = Fin 1"
      "Math_max (Fin 1) (Math_min (Fin 10) (Fin 2)) = Fin 2"
      "Math_max (Fin 1) (Math_min (Fin 10) (Fin 5)) = Fin 5"
      "Math_max (Fin 1) (Math_min (Fin 10) (Fin 8)) = Fin 8"
      "Math_max (Fin 1) (Math_min (Fin 10) (Fin 15)) = Fin 10"
    by (simp_all add: Math_max_def Math_min_def)
  have j: "js_show sample_runtime (Fin 10) = ''10''"
    by (simp add: js_show_def show_nat.simps)
  note t = removeNoise_tiers[where rt = sample_runtime and fs = "?fs" and inputPath = "''in.jpg''"
             and outputPath = "''out.jpg''"]
  from t[where strength = "Some (Fin 0)"] s(1)
  have c0: "\<exists>f enc. snd (removeNoise sample_runtime ?fs ''in.jpg'' ''out.jpg'' (Some (Fin 0))) ''out.jpg'' = Some f \<and>
             last_stage f = Some (SharpStage [Median (Fin 1)] enc)"
    by (simp add: v js_gt_def Let_def)
  from t[where strength = "Some (Fin 2)"] s(2)
  have c2: "\<exists>f enc. snd (removeNoise sample_runtime ?fs ''in.jpg'' ''out.jpg'' (Some (Fin 2))) ''out.jpg'' = Some f \<and>
             last_stage f = Some (SharpStage [Median (Fin 2)] enc)"
    by (simp add: v js_gt_def Let_def)
  from t[where strength = "Some (Fin 5)"] s(3)
  have c5: "\<exists>f enc. snd (removeNoise sample_runtime ?fs ''in.jpg'' ''out.jpg'' (Some (Fin 5))) ''out.jpg'' = Some f \<and>
             last_stage f = Some (SharpStage [Median (Fin 3), Blur (Fin 0.5), Sharpen] enc)"
    by (simp add: v js_gt_def Let_def)
  from t[where strength = "Some (Fin 8)"] s(4)
  have c8: "\<exists>f enc. snd (removeNoise sample_runtime ?fs ''in.jpg'' ''out.jpg'' (Some (Fin 8))) ''out.jpg'' = Some f \<and>
             last_stage f = Some (SharpStage [Median (Fin 3), Blur (Fin 0.8), Sharpen,
                                              Modulate (Some (Fin 1.02)) None None] enc)"
    by (simp add: v js_gt_def Let_def)
  from t[where strength = "Some (Fin 15)"] s(5)
  have c15: "fst (removeNoise sample_runtime ?fs ''in.jpg'' ''out.jpg'' (Some (Fin 15)))
     = succeeded ''Noise removed (strength: 10) and saved to out.jpg''"
    and c15': "\<exists>f enc. snd (removeNoise sample_runtime ?fs ''in.jpg'' ''out.jpg'' (Some (Fin 15))) ''out.jpg'' = Some f \<and>
             last_stage f = Some (SharpStage [Median (Fin 3), Blur (Fin 0.8), Sharpen,
                                              Modulate (Some (Fin 1.02)) None None] enc)"
    by (simp_all add: v j js_gt_def Let_def)
  from c0 c2 c5 c8 c15 c15' show ?thesis by (intro conjI)
qed

subsection \<open>C9: the shape of the returned objects\<close>

text \<open>
  Claim C9. Every public operation of the core returns a tagged result for every input,
  no exception leaves the core, and every failure has the form
  \<open>{ success: false, error: message }\<close>.

  The validator does not follow that form: for a path that does not exist it returns
  \<open>{ valid: false, error: 'File does not exist' }\<close>, an object without the key \<open>success\<close>.
\<close>

theorem validateInputFile_failure_shape:
  "validateInputFile sample_runtime no_files ''nonexistent.jpg''
     = Inr (invalid ''File does not exist'') \<and>
   valid (invalid ''File does not exist'') = Some False \<and>
   success (invalid ''File does not exist'') = None \<and>
   \<not> tagged (invalid ''File does not exist'')"
  by (simp add: validateInputFile_def no_files_def invalid_def empty_result_def tagged_def
        is_success_def is_failure_def)

text \<open>
  Nor does every input get an object back: a \<open>null\<close> option bag makes \<open>enhanceImage\<close>,
  \<open>upscaleImage\<close> and \<open>adjustColorBalance\<close> throw in front of their \<open>try\<close>.
\<close>

lemma options_null_rejects:
  "enhanceImage_call rt fs p q Null
     = Inl ''Cannot destructure property brightness of options as it is null.''"
  "upscaleImage_call rt fs p q Null
     = Inl ''Cannot destructure property scale of options as it is null.''"
  "adjustColorBalance_call rt fs p q Null
     = Inl ''Cannot destructure property temperature of options as it is null.''"
  by (simp_all add: enhanceImage_call_def upscaleImage_call_def adjustColorBalance_call_def
        destructure_def)

text \<open>
  Claim C9, amended. On paths that are strings, numbers of any value and option bags that
  are objects or left out, every public operation returns an object and no exception
  leaves it. \<open>getImageInfo\<close>, \<open>restoreImage\<close>, \<open>enhanceImage\<close>, \<open>upscaleImage\<close>, \<open>removeNoise\<close>,
  \<open>adjustColorBalance\<close>, \<open>convertFormat\<close> and \<open>createThumbnail\<close> return either
  \<open>{ success: true, ... }\<close> without an error or exactly \<open>{ success: false, error: message }\<close>;
  \<open>validateInputFile\<close> returns \<open>{ valid: true }\<close> or exactly
  \<open>{ valid: false, error: message }\<close>. The methods that destructure their option bag are
  taken as a caller reaches them, the destructuring included.
\<close>

theorem core_operations_return_results:
  "(\<exists>r. validateInputFile rt fs p = Inr r \<and> is_verdict r) \<and>
   tagged (fst (getImageInfo rt fs p)) \<and>
   (\<exists>r fs'. restoreImage_call rt fs p q arg = Inr (r, fs') \<and> tagged r) \<and>
   (arg \<noteq> Null \<longrightarrow> (\<exists>r fs'. enhanceImage_call rt fs p q arg = Inr (r, fs') \<and> tagged r)) \<and>
   (arg \<noteq> Null \<longrightarrow> (\<exists>r fs'. upscaleImage_call rt fs p q arg = Inr (r, fs') \<and> tagged r)) \<and>
   tagged (fst (removeNoise rt fs p q strength)) \<and>
   (carg \<noteq> Null \<longrightarrow>
      (\<exists>r fs'. adjustColorBalance_call rt fs p q carg = Inr (r, fs') \<and> tagged r)) \<and>
   tagged (fst (convertFormat rt fs p q t quality)) \<and>
   tagged (fst (createThumbnail rt fs p q sz))"
proof (intro conjI impI)
  show "\<exists>r fs'. restoreImage_call rt fs p q arg = Inr (r, fs') \<and> tagged r"
    using restoreImage_tagged[of rt fs p q "spread arg"]
    by (cases "restoreImage rt fs p q (spread arg)") (simp add: restoreImage_call_def)
next
  assume "arg \<noteq> Null"
  then obtain opts where d: "destructure ''brightness'' no_options arg = Inr opts"
    by (cases arg) (simp_all add: destructure_def)
  show "\<exists>r fs'. enhanceImage_call rt fs p q arg = Inr (r, fs') \<and> tagged r"
    using enhanceImage_tagged[of rt fs p q opts]
    by (cases "enhanceImage rt fs p q opts") (simp add: enhanceImage_call_def d)
next
  assume "arg \<noteq> Null"
  then obtain opts where d: "destructure ''scale'' no_options arg = Inr opts"
    by (cases arg) (simp_all add: destructure_def)
  show "\<exists>r fs'. upscaleImage_call rt fs p q arg = Inr (r, fs') \<and> tagged r"
    using upscaleImage_tagged[of rt fs p q opts]
    by (cases "upscaleImage rt fs p q opts") (simp add: upscaleImage_call_def d)
next
  assume "carg \<noteq> Null"
  then obtain opts where d: "destructure ''temperature'' no_color_options carg = Inr opts"
    by (cases carg) (simp_all add: destructure_def)
  show "\<exists>r fs'. adjustColorBalance_call rt fs p q carg = Inr (r, fs') \<and> tagged r"
    using adjustColorBalance_tagged[of rt fs p q opts]
    by (cases "adjustColorBalance rt fs p q opts") (simp add: adjustColorBalance_call_def d)
qed (rule validateInputFile_verdict getImageInfo_tagged removeNoise_tagged convertFormat_tagged
       createThumbnail_tagged)+

theorem core_operations_return_results_witness:
  "(\<exists>r. validateInputFile sample_runtime no_files ''nonexistent.jpg'' = Inr r \<and> is_verdict r) \<and>
   tagged (fst (getImageInfo sample_runtime no_files ''nonexistent.jpg'')) \<and>
   (\<exists>r fs'. restoreImage_call sample_runtime no_files ''nonexistent.jpg'' ''out.jpg'' Undefined
               = Inr (r, fs') \<and> tagged r) \<and>
   (\<exists>r fs'. enhanceImage_call sample_runtime no_files ''nonexistent.jpg'' ''out.jpg'' Undefined
               = Inr (r, fs') \<and> tagged r) \<and>
   (\<exists>r fs'. upscaleImage_call sample_runtime no_files ''nonexistent.jpg'' ''out.jpg'' Undefined
               = Inr (r, fs') \<and> tagged r) \<and>
   tagged (fst (removeNoise sample_runtime no_files ''nonexistent.jpg'' ''out.jpg'' None)) \<and>
   (\<exists>r fs'. adjustColorBalance_call sample_runtime no_files ''nonexistent.jpg'' ''out.jpg''
                (Obj (no_color_options\<lparr>temperature := Some (Fin 10)\<rparr>))
               = Inr (r, fs') \<and> tagged r) \<and>
   tagged (fst (convertFormat sample_runtime no_files ''nonexistent.jpg'' ''out.jpg'' ''bmp'' None)) \<and>
   tagged (fst (createThumbnail sample_runtime no_files ''nonexistent.jpg'' ''out.jpg'' None))"
proof -
  have n: "(Undefined :: options js_arg) \<noteq> Null"
    "Obj (no_color_options\<lparr>temperature := Some (Fin 10)\<rparr>) \<noteq> Null"
    by simp_all
  show ?thesis
    using core_operations_return_results[where rt = sample_runtime and fs = no_files
        and p = "''nonexistent.jpg''" and q = "''out.jpg''" and arg = Undefined
        and carg = "Obj (no_color_options\<lparr>temperature := Some (Fin 10)\<rparr>)"
        and strength = None and t = "''bmp''" and quality = None and sz = None] n
    by simp
qed

subsection \<open>C10: the intermediate path\<close>

text \<open>
  Claim C10. \<open>restoreImage\<close> derives the intermediate path by putting \<open>_temp\<close> in front of
  the final dot-extension of \<open>outputPath\<close>. When \<open>outputPath\<close> has a dot-extension the
  intermediate path is the stem, \<open>_temp\<close> and the extension, and differs from
  \<open>outputPath\<close>; when it has none the intermediate path is \<open>outputPath\<close> itself. In that
  case, in the two-stage plan (the input is valid, the scale exceeds 1, the upscale stage
  succeeds), the cleanup removes the file at \<open>outputPath\<close>: after the call no file exists
  there, whatever the enhance stage did, unless the operating system refuses the removal.
\<close>

theorem restoreImage_intermediate_path:
  "(case dot_extension outputPath of
      Some e \<Rightarrow> temp_path outputPath = take (length outputPath - length e) outputPath @ ''_temp'' @ e
                \<and> temp_path outputPath \<noteq> outputPath
    | None \<Rightarrow> temp_path outputPath = outputPath) \<and>
   (dot_extension outputPath = None \<and>
    validateInputFile rt fs inputPath = Inr valid_result \<and>
    scale_exceeds_one (merge_options defaultOptions opts) \<and>
    truthy (success (fst (upscaleImage rt fs inputPath outputPath
                            (stage1_options (merge_options defaultOptions opts))))) \<and>
    unlink_error rt outputPath = None
    \<longrightarrow> snd (restoreImage rt fs inputPath outputPath opts) outputPath = None)"
proof (intro conjI impI)
  show "case dot_extension outputPath of
      Some e \<Rightarrow> temp_path outputPath = take (length outputPath - length e) outputPath @ ''_temp'' @ e
                \<and> temp_path outputPath \<noteq> outputPath
    | None \<Rightarrow> temp_path outputPath = outputPath"
    by (rule temp_path_by_extension)
next
  assume h: "dot_extension outputPath = None \<and>
    validateInputFile rt fs inputPath = Inr valid_result \<and>
    scale_exceeds_one (merge_options defaultOptions opts) \<and>
    truthy (success (fst (upscaleImage rt fs inputPath outputPath
                            (stage1_options (merge_options defaultOptions opts))))) \<and>
    unlink_error rt outputPath = None"
  then have t: "temp_path outputPath = outputPath"
    using temp_path_by_extension[of outputPath] by simp
  have v: "truthy (valid valid_result)" by (simp add: truthy_def valid_result_def empty_result_def)
  from h have "snd (restoreImage rt fs inputPath outputPath opts) (temp_path outputPath) = None"
    by (intro restoreImage_cleanup[OF _ v]) (simp_all add: t)
  then show "snd (restoreImage rt fs inputPath outputPath opts) outputPath = None" by (simp add: t)
qed

theorem restoreImage_intermediate_path_witness:
  "temp_path ''photo.jpg'' = ''photo_temp.jpg'' \<and> temp_path ''out'' = ''out'' \<and>
   snd (restoreImage sample_runtime (one_file ''in.jpg'' (test_image ''jpeg''))
          ''in.jpg'' ''out'' no_options) ''out'' = None"
proof -
  have h1: "dot_extension ''out'' = None" by (simp add: dot_extension_def)
  have h2: "dot_extension ''photo.jpg'' = Some ''.jpg''" by (simp add: dot_extension_def)
  have h3: "validateInputFile sample_runtime (one_file ''in.jpg'' (test_image ''jpeg'')) ''in.jpg''
              = Inr valid_result"
    by (simp add: validateInputFile_def sample_defs statSync_def sharp_metadata_def
          maxFileSize_def supportedSharpFormats_def)
  have h4: "scale_exceeds_one (merge_options defaultOptions no_options)"
    by (simp add: scale_exceeds_one_def merge_options_def defaultOptions_def no_options_def
          pick_def js_gt_def)
  have h5: "truthy (success (fst (upscaleImage sample_runtime
              (one_file ''in.jpg'' (test_image ''jpeg'')) ''in.jpg'' ''out''
              (stage1_options (merge_options defaultOptions no_options)))))"
    by code_simp
  have h6: "unlink_error sample_runtime ''out'' = None" by (simp add: sample_defs)
  show ?thesis
    using restoreImage_intermediate_path[of "''photo.jpg''"]
      restoreImage_intermediate_path[of "''out''" sample_runtime
        "one_file ''in.jpg'' (test_image ''jpeg'')" "''in.jpg''" no_options]
      h1 h2 h3 h4 h5 h6
    by simp
qed

end
